theory Spec2Isabelle
  imports Main
begin

section \<open>JavaScript values of the request and response bodies\<close>

text \<open>
  The handlers of \<^verbatim>\<open>server.js\<close> read fields of the parsed JSON body and hand them on
  to the payment processor unchanged. A field that the body does not have is
  \<^verbatim>\<open>undefined\<close>. Numbers are kept as integers: the handlers only test a number for
  being zero (falsiness) and otherwise pass it through.
  A string is the list of the bytes of its text (UTF-8): the handlers test a string for
  being empty, compare and concatenate strings, and otherwise only convert a promo code
  to upper case, which is the runtime's operation.
\<close>

datatype jsval =
    JUndefined
  | JNull
  | JBool bool
  | JNum int
  | JStr string
  | JArr "jsval list"
  | JObj "(string \<times> jsval) list"

text \<open>JavaScript truthiness, as used by \<^verbatim>\<open>if (x)\<close>, \<^verbatim>\<open>!x\<close> and \<^verbatim>\<open>x || y\<close>.\<close>

fun truthy :: "jsval \<Rightarrow> bool" where
  "truthy JUndefined = False"
| "truthy JNull = False"
| "truthy (JBool b) = b"
| "truthy (JNum n) = (n \<noteq> 0)"
| "truthy (JStr s) = (s \<noteq> [])"
| "truthy (JArr xs) = True"
| "truthy (JObj kvs) = True"

type_synonym body = "string \<rightharpoonup> jsval"

text \<open>\<^verbatim>\<open>const { k } = req.body\<close>: an absent key reads as \<^verbatim>\<open>undefined\<close>.\<close>

definition field :: "body \<Rightarrow> string \<Rightarrow> jsval" where
  "field b k = (case b k of None \<Rightarrow> JUndefined | Some v \<Rightarrow> v)"

datatype error = StripeError string | TypeError string

fun message :: "error \<Rightarrow> string" where
  "message (StripeError m) = m"
| "message (TypeError m) = m"

subsection \<open>\<^verbatim>\<open>String.prototype.toUpperCase\<close>\<close>

text \<open>
  The conversion is the JavaScript runtime's: it follows the Unicode case tables, converts
  every cased letter and can change the length of the text. The handlers take it as a
  parameter, so nothing is assumed of it beyond what a theorem states.
\<close>

type_synonym upper = "string \<Rightarrow> string"

text \<open>
  \<^verbatim>\<open>promoCode.toUpperCase()\<close> on a truthy value: only a string has the method; on
  a number, \<^verbatim>\<open>true\<close>, an array or an object the call throws a TypeError.
\<close>

fun call_toUpperCase :: "upper \<Rightarrow> jsval \<Rightarrow> error + string" where
  "call_toUpperCase toUpperCase (JStr s) = Inr (toUpperCase s)"
| "call_toUpperCase toUpperCase JUndefined =
     Inl (TypeError ''Cannot read properties of undefined (reading 'toUpperCase')'')"
| "call_toUpperCase toUpperCase JNull =
     Inl (TypeError ''Cannot read properties of null (reading 'toUpperCase')'')"
| "call_toUpperCase toUpperCase v = Inl (TypeError ''promoCode.toUpperCase is not a function'')"

section \<open>The payment processor, an external collaborator\<close>

text \<open>
  The objects the processor returns, with the fields the handlers read, and the
  processor itself as a parameter: each remote operation takes the processor's state
  and returns its result, or the error it rejects with, and the new state.
\<close>

record customer =
  c_id :: string
  c_email :: jsval
  c_eventer_user_id :: jsval

record ephemeral_key =
  ek_secret :: jsval

record payment_intent =
  pi_client_secret :: jsval

record coupon =
  percent_off :: jsval
  amount_off :: jsval
  duration :: jsval
  duration_in_months :: jsval

record promotion_code =
  pc_id :: string
  pc_code :: string
  pc_active :: bool
  pc_coupon :: coupon

record invoice =
  inv_payment_intent :: "payment_intent option"

record subscription =
  sub_id :: string
  sub_customer :: string
  sub_status :: string
  latest_invoice :: "invoice option"

text \<open>
  A verified event, as the processor's library types it: \<^verbatim>\<open>constructEvent\<close> returns
  it or throws, and the dispatch reads \<^verbatim>\<open>event.type\<close> and \<^verbatim>\<open>event.data.object\<close>.
\<close>

record data_object =
  o_id :: jsval
  o_status :: jsval

record event =
  ev_type :: string
  ev_data_object :: data_object

record pi_params =
  pi_amount :: jsval
  pi_currency :: jsval
  pi_customer :: string
  pi_price_id :: jsval
  pi_eventer_user_id :: jsval
  pi_automatic_payment_methods :: bool

record sub_params =
  sp_customer :: string
  sp_price :: jsval
  sp_payment_behavior :: string
  sp_save_default_payment_method :: string
  sp_expand :: "string list"
  sp_eventer_user_id :: jsval
  sp_promotion_code :: "string option"

record 's processor =
  customers_list :: "jsval \<Rightarrow> nat \<Rightarrow> 's \<Rightarrow> (error + customer list) \<times> 's"
  customers_create :: "jsval \<Rightarrow> jsval option \<Rightarrow> 's \<Rightarrow> (error + customer) \<times> 's"
  ephemeralKeys_create :: "string \<Rightarrow> string \<Rightarrow> 's \<Rightarrow> (error + ephemeral_key) \<times> 's"
  paymentIntents_create :: "pi_params \<Rightarrow> 's \<Rightarrow> (error + payment_intent) \<times> 's"
  promotionCodes_list :: "string \<Rightarrow> bool \<Rightarrow> nat \<Rightarrow> 's \<Rightarrow> (error + promotion_code list) \<times> 's"
  subscriptions_create :: "sub_params \<Rightarrow> 's \<Rightarrow> (error + subscription) \<times> 's"
  subscriptions_list :: "jsval \<Rightarrow> string \<Rightarrow> nat \<Rightarrow> 's \<Rightarrow> (error + subscription list) \<times> 's"
  subscriptions_cancel :: "string \<Rightarrow> 's \<Rightarrow> (error + subscription) \<times> 's"
  webhooks_constructEvent :: "jsval \<Rightarrow> jsval \<Rightarrow> jsval \<Rightarrow> error + event"

text \<open>The remote calls a handler makes, in order, with their arguments.\<close>

datatype call =
    CustomersList jsval nat
  | CustomersCreate jsval "jsval option"
  | EphemeralKeysCreate string string
  | PaymentIntentsCreate pi_params
  | PromotionCodesList string bool nat
  | SubscriptionsCreate sub_params
  | SubscriptionsList jsval string nat
  | SubscriptionsCancel string

record config =
  EXPO_PUBLIC_STRIPE_PUBLISHABLE_KEY :: jsval
  STRIPE_WEBHOOK_SECRET :: jsval

section \<open>One request: the response object, the console and the processor\<close>

text \<open>
  A response body: \<^verbatim>\<open>res.json\<close>, \<^verbatim>\<open>res.send\<close> of a text, or the error page the
  framework sends by itself when a body parser fails (its text is the framework's).
\<close>

datatype rbody = Json jsval | Text string | ErrorPage

datatype level = LOG | ERROR

record 's hstate =
  pst :: 's
  trace :: "call list"
  statusCode :: nat
  sent :: "(nat \<times> rbody) list"
  console :: "(level \<times> jsval list) list"

definition new_request :: "'s \<Rightarrow> 's hstate" where
  "new_request s = \<lparr>pst = s, trace = [], statusCode = 200, sent = [], console = []\<rparr>"

definition res_status :: "nat \<Rightarrow> 's hstate \<Rightarrow> 's hstate" where
  "res_status n h = h\<lparr>statusCode := n\<rparr>"

definition res_json :: "jsval \<Rightarrow> 's hstate \<Rightarrow> 's hstate" where
  "res_json b h = h\<lparr>sent := sent h @ [(statusCode h, Json b)]\<rparr>"

definition res_send :: "string \<Rightarrow> 's hstate \<Rightarrow> 's hstate" where
  "res_send t h = h\<lparr>sent := sent h @ [(statusCode h, Text t)]\<rparr>"

definition console_log :: "jsval list \<Rightarrow> 's hstate \<Rightarrow> 's hstate" where
  "console_log args h = h\<lparr>console := console h @ [(LOG, args)]\<rparr>"

definition console_error :: "jsval list \<Rightarrow> 's hstate \<Rightarrow> 's hstate" where
  "console_error args h = h\<lparr>console := console h @ [(ERROR, args)]\<rparr>"

text \<open>
  The body of a \<^verbatim>\<open>try\<close> block is a computation over the request state that either
  completes or throws; \<open>bindE\<close> sequences two awaited steps, the second not run when
  the first throws.
\<close>

type_synonym ('s, 'a) step = "'s hstate \<Rightarrow> (error + 'a) \<times> 's hstate"

definition returnE :: "'a \<Rightarrow> ('s, 'a) step" where
  "returnE x h = (Inr x, h)"

definition throwE :: "error \<Rightarrow> ('s, 'a) step" where
  "throwE e h = (Inl e, h)"

definition bindE :: "('s, 'a) step \<Rightarrow> ('a \<Rightarrow> ('s, 'b) step) \<Rightarrow> ('s, 'b) step" where
  "bindE m f h = (case m h of (Inl e, h') \<Rightarrow> (Inl e, h') | (Inr x, h') \<Rightarrow> f x h')"

definition liftE :: "error + 'a \<Rightarrow> ('s, 'a) step" where
  "liftE r h = (r, h)"

text \<open>An awaited processor call: it is recorded, and the processor's state moves on.\<close>

definition invoke :: "call \<Rightarrow> ('s \<Rightarrow> (error + 'a) \<times> 's) \<Rightarrow> ('s, 'a) step" where
  "invoke c op h =
     (case op (pst h) of (r, s') \<Rightarrow> (r, h\<lparr>pst := s', trace := trace h @ [c]\<rparr>))"

definition stripe_customers_list :: "'s processor \<Rightarrow> jsval \<Rightarrow> nat \<Rightarrow> ('s, customer list) step" where
  "stripe_customers_list P email lim = invoke (CustomersList email lim) (customers_list P email lim)"

definition stripe_customers_create ::
  "'s processor \<Rightarrow> jsval \<Rightarrow> jsval option \<Rightarrow> ('s, customer) step" where
  "stripe_customers_create P email meta =
     invoke (CustomersCreate email meta) (customers_create P email meta)"

definition stripe_ephemeralKeys_create ::
  "'s processor \<Rightarrow> string \<Rightarrow> string \<Rightarrow> ('s, ephemeral_key) step" where
  "stripe_ephemeralKeys_create P cust ver =
     invoke (EphemeralKeysCreate cust ver) (ephemeralKeys_create P cust ver)"

definition stripe_paymentIntents_create ::
  "'s processor \<Rightarrow> pi_params \<Rightarrow> ('s, payment_intent) step" where
  "stripe_paymentIntents_create P ps = invoke (PaymentIntentsCreate ps) (paymentIntents_create P ps)"

definition stripe_promotionCodes_list ::
  "'s processor \<Rightarrow> string \<Rightarrow> bool \<Rightarrow> nat \<Rightarrow> ('s, promotion_code list) step" where
  "stripe_promotionCodes_list P code act lim =
     invoke (PromotionCodesList code act lim) (promotionCodes_list P code act lim)"

definition stripe_subscriptions_create ::
  "'s processor \<Rightarrow> sub_params \<Rightarrow> ('s, subscription) step" where
  "stripe_subscriptions_create P ps = invoke (SubscriptionsCreate ps) (subscriptions_create P ps)"

definition stripe_subscriptions_list ::
  "'s processor \<Rightarrow> jsval \<Rightarrow> string \<Rightarrow> nat \<Rightarrow> ('s, subscription list) step" where
  "stripe_subscriptions_list P cust st lim =
     invoke (SubscriptionsList cust st lim) (subscriptions_list P cust st lim)"

definition stripe_subscriptions_cancel :: "'s processor \<Rightarrow> string \<Rightarrow> ('s, subscription) step" where
  "stripe_subscriptions_cancel P sid = invoke (SubscriptionsCancel sid) (subscriptions_cancel P sid)"

section \<open>The handlers\<close>

subsection \<open>POST /create-payment-intent\<close>

definition create_payment_intent_try :: "'s processor \<Rightarrow> config \<Rightarrow> body \<Rightarrow> ('s, unit) step" where
  "create_payment_intent_try P cfg b =
     (let priceId = field b ''priceId'';
          amount = field b ''amount'';
          currency = field b ''currency'';
          customerId = field b ''customerId'';
          customerEmail = field b ''customerEmail''
      in bindE
           (if truthy customerId then
              bindE (stripe_customers_list P customerEmail 1) (\<lambda>customers.
                case customers of
                  c # rest \<Rightarrow> returnE c
                | [] \<Rightarrow> stripe_customers_create P customerEmail (Some customerId))
            else stripe_customers_create P customerEmail None)
           (\<lambda>customer.
         bindE (stripe_ephemeralKeys_create P (c_id customer) ''2023-10-16'') (\<lambda>ephemeralKey.
         bindE (stripe_paymentIntents_create P
                  \<lparr>pi_amount = amount,
                   pi_currency = (if truthy currency then currency else JStr ''usd''),
                   pi_customer = c_id customer,
                   pi_price_id = priceId,
                   pi_eventer_user_id = customerId,
                   pi_automatic_payment_methods = True\<rparr>) (\<lambda>paymentIntent.
         (\<lambda>h. (Inr (), res_json (JObj
                  [(''paymentIntent'', pi_client_secret paymentIntent),
                   (''ephemeralKey'', ek_secret ephemeralKey),
                   (''customer'', JStr (c_id customer)),
                   (''publishableKey'', EXPO_PUBLIC_STRIPE_PUBLISHABLE_KEY cfg)]) h))))))"

definition create_payment_intent :: "'s processor \<Rightarrow> config \<Rightarrow> body \<Rightarrow> 's \<Rightarrow> 's hstate" where
  "create_payment_intent P cfg b s =
     (case create_payment_intent_try P cfg b (new_request s) of
        (Inr u, h) \<Rightarrow> h
      | (Inl e, h) \<Rightarrow>
          res_json (JObj [(''error'', JStr (message e))])
            (res_status 500
              (console_error [JStr ''Error creating payment intent:'', JStr (message e)] h)))"

subsection \<open>POST /validate-promo\<close>

definition validate_promo_try :: "upper \<Rightarrow> 's processor \<Rightarrow> body \<Rightarrow> ('s, unit) step" where
  "validate_promo_try toUpperCase P b =
     (let promoCode = field b ''promoCode''
      in if \<not> truthy promoCode then
           (\<lambda>h. (Inr (), res_json (JObj [(''valid'', JBool False),
                                          (''error'', JStr ''Promo code is required'')])
                            (res_status 400 h)))
         else
           bindE (liftE (call_toUpperCase toUpperCase promoCode)) (\<lambda>code.
           bindE (stripe_promotionCodes_list P code True 1) (\<lambda>promotionCodes.
             case promotionCodes of
               [] \<Rightarrow> (\<lambda>h. (Inr (), res_json (JObj [(''valid'', JBool False)]) h))
             | promoCodeObj # rest \<Rightarrow>
                 (let coupon = pc_coupon promoCodeObj
                  in (\<lambda>h. (Inr (), res_json (JObj
                        [(''valid'', JBool True),
                         (''promoCodeId'', JStr (pc_id promoCodeObj)),
                         (''percentOff'', percent_off coupon),
                         (''amountOff'', amount_off coupon),
                         (''duration'', duration coupon),
                         (''durationInMonths'', duration_in_months coupon)]) h))))))"

definition validate_promo :: "upper \<Rightarrow> 's processor \<Rightarrow> body \<Rightarrow> 's \<Rightarrow> 's hstate" where
  "validate_promo toUpperCase P b s =
     (case validate_promo_try toUpperCase P b (new_request s) of
        (Inr u, h) \<Rightarrow> h
      | (Inl e, h) \<Rightarrow>
          res_json (JObj [(''valid'', JBool False), (''error'', JStr (message e))])
            (res_status 500
              (console_error [JStr ''Error validating promo code:'', JStr (message e)] h)))"

subsection \<open>POST /create-subscription\<close>

text \<open>
  \<^verbatim>\<open>subscription.latest_invoice.payment_intent.client_secret\<close>: reading a property of
  \<^verbatim>\<open>null\<close> throws a TypeError.
\<close>

definition latest_invoice_payment_intent_client_secret :: "subscription \<Rightarrow> error + jsval" where
  "latest_invoice_payment_intent_client_secret sub =
     (case latest_invoice sub of
        None \<Rightarrow> Inl (TypeError ''Cannot read properties of null (reading 'payment_intent')'')
      | Some li \<Rightarrow>
          (case inv_payment_intent li of
             None \<Rightarrow> Inl (TypeError ''Cannot read properties of null (reading 'client_secret')'')
           | Some p \<Rightarrow> Inr (pi_client_secret p)))"

definition create_subscription_try :: "upper \<Rightarrow> 's processor \<Rightarrow> body \<Rightarrow> ('s, unit) step" where
  "create_subscription_try toUpperCase P b =
     (let priceId = field b ''priceId'';
          customerEmail = field b ''customerEmail'';
          customerId = field b ''customerId'';
          promoCode = field b ''promoCode''
      in bindE (stripe_customers_list P customerEmail 1) (\<lambda>customers.
         bindE (case customers of
                  c # rest \<Rightarrow> returnE c
                | [] \<Rightarrow> stripe_customers_create P customerEmail (Some customerId)) (\<lambda>customer.
         bindE (stripe_ephemeralKeys_create P (c_id customer) ''2023-10-16'') (\<lambda>ephemeralKey.
         (let subscriptionOptions =
                \<lparr>sp_customer = c_id customer,
                 sp_price = priceId,
                 sp_payment_behavior = ''default_incomplete'',
                 sp_save_default_payment_method = ''on_subscription'',
                 sp_expand = [''latest_invoice.payment_intent''],
                 sp_eventer_user_id = customerId,
                 sp_promotion_code = None\<rparr>
          in bindE
               (if truthy promoCode then
                  bindE (liftE (call_toUpperCase toUpperCase promoCode)) (\<lambda>code.
                  bindE (stripe_promotionCodes_list P code True 1) (\<lambda>promotionCodes.
                    case promotionCodes of
                      pc # rest \<Rightarrow>
                        returnE (subscriptionOptions\<lparr>sp_promotion_code := Some (pc_id pc)\<rparr>)
                    | [] \<Rightarrow> returnE subscriptionOptions))
                else returnE subscriptionOptions) (\<lambda>subscriptionOptions.
             bindE (stripe_subscriptions_create P subscriptionOptions) (\<lambda>subscription.
             bindE (liftE (latest_invoice_payment_intent_client_secret subscription)) (\<lambda>secret.
             (\<lambda>h. (Inr (), res_json (JObj
                      [(''subscriptionId'', JStr (sub_id subscription)),
                       (''paymentIntent'', secret),
                       (''ephemeralKey'', ek_secret ephemeralKey),
                       (''customer'', JStr (c_id customer))]) h))))))))))"

definition create_subscription :: "upper \<Rightarrow> 's processor \<Rightarrow> body \<Rightarrow> 's \<Rightarrow> 's hstate" where
  "create_subscription toUpperCase P b s =
     (case create_subscription_try toUpperCase P b (new_request s) of
        (Inr u, h) \<Rightarrow> h
      | (Inl e, h) \<Rightarrow>
          res_json (JObj [(''error'', JStr (message e))])
            (res_status 500
              (console_error [JStr ''Error creating subscription:'', JStr (message e)] h)))"

subsection \<open>POST /cancel-subscription\<close>

text \<open>
  The \<^verbatim>\<open>for ... of\<close> loop over \<^verbatim>\<open>subscriptions.data\<close>: each subscription is cancelled
  in turn and the id of the result pushed; a call that throws leaves the loop.
\<close>

fun cancel_loop ::
  "'s processor \<Rightarrow> subscription list \<Rightarrow> string list \<Rightarrow> ('s, string list) step" where
  "cancel_loop P [] canceledSubscriptions h = (Inr canceledSubscriptions, h)"
| "cancel_loop P (subscription # rest) canceledSubscriptions h =
     (case stripe_subscriptions_cancel P (sub_id subscription) h of
        (Inl e, h') \<Rightarrow> (Inl e, h')
      | (Inr canceled, h') \<Rightarrow>
          cancel_loop P rest (canceledSubscriptions @ [sub_id canceled]) h')"

definition cancel_subscription_try :: "'s processor \<Rightarrow> body \<Rightarrow> ('s, unit) step" where
  "cancel_subscription_try P b =
     (let customerId = field b ''customerId''
      in if \<not> truthy customerId then
           (\<lambda>h. (Inr (), res_json (JObj [(''error'', JStr ''Customer ID is required'')])
                            (res_status 400 h)))
         else
           bindE (stripe_subscriptions_list P customerId ''active'' 10) (\<lambda>subscriptions.
             case subscriptions of
               [] \<Rightarrow> (\<lambda>h. (Inr (), res_json (JObj [(''error'', JStr ''No active subscription found'')])
                                       (res_status 404 h)))
             | x # xs \<Rightarrow>
                 bindE (cancel_loop P subscriptions []) (\<lambda>canceledSubscriptions.
                 (\<lambda>h. (Inr (), res_json (JObj
                          [(''success'', JBool True),
                           (''canceledSubscriptions'', JArr (map JStr canceledSubscriptions))])
                          h)))))"

definition cancel_subscription :: "'s processor \<Rightarrow> body \<Rightarrow> 's \<Rightarrow> 's hstate" where
  "cancel_subscription P b s =
     (case cancel_subscription_try P b (new_request s) of
        (Inr u, h) \<Rightarrow> h
      | (Inl e, h) \<Rightarrow>
          res_json (JObj [(''error'', JStr (message e))])
            (res_status 500
              (console_error [JStr ''Error canceling subscription:'', JStr (message e)] h)))"

subsection \<open>POST /webhook\<close>

record webhook_req =
  stripe_signature :: jsval
  wh_body :: jsval

definition dispatch :: "event \<Rightarrow> 's hstate \<Rightarrow> 's hstate" where
  "dispatch ev h =
     (if ev_type ev = ''payment_intent.succeeded'' then
        console_log [JStr ''Payment succeeded:'', o_id (ev_data_object ev)] h
      else if ev_type ev = ''customer.subscription.created''
            \<or> ev_type ev = ''customer.subscription.updated'' then
        console_log [JStr ''Subscription updated:'', o_id (ev_data_object ev),
                     o_status (ev_data_object ev)] h
      else if ev_type ev = ''customer.subscription.deleted'' then
        console_log [JStr ''Subscription canceled:'', o_id (ev_data_object ev)] h
      else console_log [JStr (''Unhandled event type: '' @ ev_type ev)] h)"

definition webhook :: "'s processor \<Rightarrow> config \<Rightarrow> webhook_req \<Rightarrow> 's \<Rightarrow> 's hstate" where
  "webhook P cfg req s =
     (let sig = stripe_signature req;
          endpointSecret = STRIPE_WEBHOOK_SECRET cfg
      in case webhooks_constructEvent P (wh_body req) sig endpointSecret of
           Inl err \<Rightarrow>
             res_send (''Webhook Error: '' @ message err)
               (res_status 400
                 (console_error [JStr ''Webhook signature verification failed:'',
                                 JStr (message err)] (new_request s)))
         | Inr ev \<Rightarrow> res_json (JObj [(''received'', JBool True)]) (dispatch ev (new_request s)))"

subsection \<open>The body parsers in front of the webhook handler\<close>

text \<open>
  \<^verbatim>\<open>app.use(express.json())\<close> is registered for every route and runs first; the route
  \<^verbatim>\<open>/webhook\<close> then names \<^verbatim>\<open>express.raw({ type: 'application/json' })\<close> and the handler.
  A body parser leaves alone a request that has no body, whose content type it does not
  match, or whose body an earlier parser has already read (the flag \<^verbatim>\<open>req._body\<close>).
  \<^verbatim>\<open>express.json()\<close> in its default strict mode accepts an object or an array and fails
  the request with status 400 on anything else; \<^verbatim>\<open>express.raw\<close> stores the bytes as a
  Buffer, written \<open>JStr\<close> of the bytes here (a parsed body is never a \<open>JStr\<close>).
  \<^verbatim>\<open>JSON.parse\<close> and the value of \<^verbatim>\<open>req.body\<close> when no parser has read the body belong to
  the framework and are parameters.
\<close>

record express =
  JSON_parse :: "string \<Rightarrow> jsval option"
  unparsed_body :: jsval

record http_request =
  hr_is_json :: bool
  hr_bytes :: string
  hr_stripe_signature :: jsval

record req_state =
  req_body :: jsval
  req_parsed :: bool

datatype 'a middleware = Next 'a | Fail nat

definition express_json :: "express \<Rightarrow> http_request \<Rightarrow> req_state \<Rightarrow> req_state middleware" where
  "express_json E rq st =
     (if req_parsed st then Next st
      else if hr_bytes rq = [] then Next st
      else if hr_is_json rq then
        (case JSON_parse E (hr_bytes rq) of
           Some (JObj kvs) \<Rightarrow> Next \<lparr>req_body = JObj kvs, req_parsed = True\<rparr>
         | Some (JArr xs) \<Rightarrow> Next \<lparr>req_body = JArr xs, req_parsed = True\<rparr>
         | _ \<Rightarrow> Fail 400)
      else Next st)"

definition express_raw :: "http_request \<Rightarrow> req_state \<Rightarrow> req_state middleware" where
  "express_raw rq st =
     (if req_parsed st then Next st
      else if hr_bytes rq = [] then Next st
      else if hr_is_json rq then Next \<lparr>req_body = JStr (hr_bytes rq), req_parsed = True\<rparr>
      else Next st)"

definition error_page :: "nat \<Rightarrow> 's \<Rightarrow> 's hstate" where
  "error_page n s = (new_request s)\<lparr>statusCode := n, sent := [(n, ErrorPage)]\<rparr>"

text \<open>A request to \<^verbatim>\<open>POST /webhook\<close>, through the two parsers to the handler.\<close>

definition webhook_route ::
  "express \<Rightarrow> 's processor \<Rightarrow> config \<Rightarrow> http_request \<Rightarrow> 's \<Rightarrow> 's hstate" where
  "webhook_route E P cfg rq s =
     (case express_json E rq \<lparr>req_body = unparsed_body E, req_parsed = False\<rparr> of
        Fail n \<Rightarrow> error_page n s
      | Next st1 \<Rightarrow>
          (case express_raw rq st1 of
             Fail n \<Rightarrow> error_page n s
           | Next st2 \<Rightarrow>
               webhook P cfg \<lparr>stripe_signature = hr_stripe_signature rq,
                              wh_body = req_body st2\<rparr> s))"

section \<open>Test doubles of the processor, the framework and the runtime\<close>

text \<open>
  An in-memory processor on which the handlers can be run: customers, promotion codes and
  subscriptions are lists (newest first), identifiers are drawn from a counter, listing
  filters and truncates to the limit, a subscription created under a 100%-off promotion
  code has an invoice without payment intent, and cancelling a subscription whose id is
  in \<open>t_unreachable\<close> is rejected. Signatures are a toy scheme: the secret and the
  payload, joined.
\<close>

definition digit_chars :: string where
  "digit_chars = ''0123456789''"

fun digits :: "nat \<Rightarrow> string" where
  "digits n = (if n < 10 then [digit_chars ! n] else digits (n div 10) @ [digit_chars ! (n mod 10)])"

declare digits.simps [simp del]

record test_state =
  t_customers :: "customer list"
  t_promos :: "promotion_code list"
  t_subs :: "subscription list"
  t_next :: nat
  t_unreachable :: "string list"

definition t_customers_list :: "jsval \<Rightarrow> nat \<Rightarrow> test_state \<Rightarrow> (error + customer list) \<times> test_state" where
  "t_customers_list email lim s = (Inr (take lim (filter (\<lambda>c. c_email c = email) (t_customers s))), s)"

definition t_customers_create ::
  "jsval \<Rightarrow> jsval option \<Rightarrow> test_state \<Rightarrow> (error + customer) \<times> test_state" where
  "t_customers_create email meta s =
     (let c = \<lparr>c_id = ''cus_'' @ digits (t_next s), c_email = email,
               c_eventer_user_id = (case meta of None \<Rightarrow> JUndefined | Some u \<Rightarrow> u)\<rparr>
      in (Inr c, s\<lparr>t_customers := c # t_customers s, t_next := Suc (t_next s)\<rparr>))"

definition t_ephemeralKeys_create ::
  "string \<Rightarrow> string \<Rightarrow> test_state \<Rightarrow> (error + ephemeral_key) \<times> test_state" where
  "t_ephemeralKeys_create cust ver s =
     (Inr \<lparr>ek_secret = JStr (''ek_'' @ digits (t_next s) @ ''_secret'')\<rparr>,
      s\<lparr>t_next := Suc (t_next s)\<rparr>)"

definition t_paymentIntents_create ::
  "pi_params \<Rightarrow> test_state \<Rightarrow> (error + payment_intent) \<times> test_state" where
  "t_paymentIntents_create ps s =
     (Inr \<lparr>pi_client_secret = JStr (''pi_'' @ digits (t_next s) @ ''_secret'')\<rparr>,
      s\<lparr>t_next := Suc (t_next s)\<rparr>)"

definition t_promotionCodes_list ::
  "string \<Rightarrow> bool \<Rightarrow> nat \<Rightarrow> test_state \<Rightarrow> (error + promotion_code list) \<times> test_state" where
  "t_promotionCodes_list code act lim s =
     (Inr (take lim (filter (\<lambda>p. pc_code p = code \<and> pc_active p = act) (t_promos s))), s)"

definition t_subscriptions_create ::
  "sub_params \<Rightarrow> test_state \<Rightarrow> (error + subscription) \<times> test_state" where
  "t_subscriptions_create ps s =
     (let free = (case sp_promotion_code ps of
                    None \<Rightarrow> False
                  | Some pid \<Rightarrow>
                      list_ex (\<lambda>p. pc_id p = pid \<and> percent_off (pc_coupon p) = JNum 100) (t_promos s));
          sub = \<lparr>sub_id = ''sub_'' @ digits (t_next s),
                 sub_customer = sp_customer ps,
                 sub_status = (if free then ''active'' else ''incomplete''),
                 latest_invoice = Some \<lparr>inv_payment_intent =
                   (if free then None
                    else Some \<lparr>pi_client_secret =
                           JStr (''pi_'' @ digits (t_next s) @ ''_secret'')\<rparr>)\<rparr>\<rparr>
      in (Inr sub, s\<lparr>t_subs := sub # t_subs s, t_next := Suc (t_next s)\<rparr>))"

definition t_subscriptions_list ::
  "jsval \<Rightarrow> string \<Rightarrow> nat \<Rightarrow> test_state \<Rightarrow> (error + subscription list) \<times> test_state" where
  "t_subscriptions_list cust st lim s =
     (Inr (take lim (filter (\<lambda>x. JStr (sub_customer x) = cust \<and> sub_status x = st) (t_subs s))), s)"

definition t_subscriptions_cancel ::
  "string \<Rightarrow> test_state \<Rightarrow> (error + subscription) \<times> test_state" where
  "t_subscriptions_cancel sid s =
     (if sid \<in> set (t_unreachable s) then (Inl (StripeError ''An error occurred with our connection to Stripe''), s)
      else case find (\<lambda>x. sub_id x = sid) (t_subs s) of
             None \<Rightarrow> (Inl (StripeError (''No such subscription: '' @ sid)), s)
           | Some x \<Rightarrow>
               (Inr (x\<lparr>sub_status := ''canceled''\<rparr>),
                s\<lparr>t_subs := map (\<lambda>y. if sub_id y = sid then y\<lparr>sub_status := ''canceled''\<rparr> else y)
                                (t_subs s)\<rparr>))"

definition t_sign :: "string \<Rightarrow> string \<Rightarrow> string" where
  "t_sign secret payload = ''v1='' @ secret @ '':'' @ payload"

text \<open>
  The events the test processor has sent, by their bytes, and the JSON values those bytes
  parse to.
\<close>

definition quoted :: "string \<Rightarrow> string" where
  "quoted t = CHR 0x22 # t @ [CHR 0x22]"

definition succeeded_bytes :: string where
  "succeeded_bytes =
     ''{'' @ quoted ''type'' @ '':'' @ quoted ''payment_intent.succeeded'' @ '','' @ quoted ''data''
     @ '':{'' @ quoted ''object'' @ '':{'' @ quoted ''id'' @ '':'' @ quoted ''pi_1'' @ '',''
     @ quoted ''status'' @ '':'' @ quoted ''succeeded'' @ ''}}}''"

definition succeeded_event :: event where
  "succeeded_event = \<lparr>ev_type = ''payment_intent.succeeded'',
                       ev_data_object = \<lparr>o_id = JStr ''pi_1'', o_status = JStr ''succeeded''\<rparr>\<rparr>"

definition succeeded_json :: jsval where
  "succeeded_json = JObj [(''type'', JStr ''payment_intent.succeeded''),
     (''data'', JObj [(''object'', JObj [(''id'', JStr ''pi_1''), (''status'', JStr ''succeeded'')])])]"

definition t_events :: "(string \<times> event) list" where
  "t_events = [(succeeded_bytes, succeeded_event)]"

definition t_constructEvent :: "jsval \<Rightarrow> jsval \<Rightarrow> jsval \<Rightarrow> error + event" where
  "t_constructEvent payload sig secret =
     (case payload of
        JStr p \<Rightarrow>
          (case (sig, secret) of
             (JStr g, JStr k) \<Rightarrow>
               (if g = t_sign k p then
                  (case map_of t_events p of
                     Some ev \<Rightarrow> Inr ev
                   | None \<Rightarrow> Inl (StripeError ''Unexpected token in JSON''))
                else Inl (StripeError
                       ''No signatures found matching the expected signature for payload''))
           | _ \<Rightarrow> Inl (StripeError ''Unable to extract timestamp and signatures from header''))
      | _ \<Rightarrow> Inl (StripeError
                 ''Webhook payload must be provided as a string or a Buffer''))"

definition test_express :: express where
  "test_express = \<lparr>JSON_parse = map_of [(succeeded_bytes, succeeded_json)],
                   unparsed_body = JObj []\<rparr>"

definition test_processor :: "test_state processor" where
  "test_processor =
     \<lparr>customers_list = t_customers_list,
      customers_create = t_customers_create,
      ephemeralKeys_create = t_ephemeralKeys_create,
      paymentIntents_create = t_paymentIntents_create,
      promotionCodes_list = t_promotionCodes_list,
      subscriptions_create = t_subscriptions_create,
      subscriptions_list = t_subscriptions_list,
      subscriptions_cancel = t_subscriptions_cancel,
      webhooks_constructEvent = t_constructEvent\<rparr>"

definition test_config :: config where
  "test_config = \<lparr>EXPO_PUBLIC_STRIPE_PUBLISHABLE_KEY = JStr ''pk_test_1'',
                  STRIPE_WEBHOOK_SECRET = JStr ''whsec_1''\<rparr>"

definition empty_state :: test_state where
  "empty_state = \<lparr>t_customers = [], t_promos = [], t_subs = [], t_next = 0, t_unreachable = []\<rparr>"

text \<open>
  A test double of the runtime's \<^verbatim>\<open>toUpperCase\<close>. It converts the letters a to z and
  leaves every other character alone, except on the two one-letter texts made of the
  small sharp s (U+00DF, bytes C3 9F in UTF-8) and of the capital sharp s (U+1E9E, bytes
  E1 BA 9E): the runtime answers \<^verbatim>\<open>SS\<close> for the first and leaves the second, which is a
  capital letter already, unchanged. On texts of ASCII characters and on these two it
  agrees with the runtime.
\<close>

definition lower_letters :: string where
  "lower_letters = ''abcdefghijklmnopqrstuvwxyz''"

definition upper_letters :: string where
  "upper_letters = ''ABCDEFGHIJKLMNOPQRSTUVWXYZ''"

definition upper_char :: "char \<Rightarrow> char" where
  "upper_char c = (case map_of (zip lower_letters upper_letters) c of None \<Rightarrow> c | Some u \<Rightarrow> u)"

definition small_sharp_s :: string where
  "small_sharp_s = [CHR 0xC3, CHR 0x9F]"

definition capital_sharp_s :: string where
  "capital_sharp_s = [CHR 0xE1, CHR 0xBA, CHR 0x9E]"

definition test_toUpperCase :: upper where
  "test_toUpperCase s =
     (if s = small_sharp_s then ''SS''
      else if s = capital_sharp_s then capital_sharp_s
      else map upper_char s)"

section \<open>Notions used to state the properties\<close>

text \<open>
  The field \<open>k\<close> of the JSON object a handler answered with, when it answered once.
\<close>

definition response_field :: "'s hstate \<Rightarrow> string \<Rightarrow> jsval" where
  "response_field h k =
     (case sent h of
        [(st, Json (JObj kvs))] \<Rightarrow> (case map_of kvs k of None \<Rightarrow> JUndefined | Some v \<Rightarrow> v)
      | _ \<Rightarrow> JUndefined)"

text \<open>
  The webhook acknowledgment.
\<close>

definition ack :: "nat \<times> rbody" where
  "ack = (200, Json (JObj [(''received'', JBool True)]))"

text \<open>
  Two promo codes that the lookup cannot tell apart: they have the same uppercased form
  (and are both empty or both non-empty, as texts with the same uppercased form are).
\<close>

definition same_uppercase :: "upper \<Rightarrow> string \<Rightarrow> string \<Rightarrow> bool" where
  "same_uppercase toUpperCase a b = (toUpperCase a = toUpperCase b \<and> (a = []) = (b = []))"

text \<open>
  Two texts of ASCII characters that differ only in the case of their letters: equal
  length, and at each position the same character or the lower-case and upper-case form
  of one of the letters a to z. On ASCII text the runtime's conversion maps a to z onto
  A to Z and leaves every other character alone.
\<close>

definition ascii_char :: "char \<Rightarrow> bool" where
  "ascii_char c = ((of_char c :: nat) < 128)"

definition case_variants :: "char \<Rightarrow> char \<Rightarrow> bool" where
  "case_variants c d =
     (c = d \<or> (c, d) \<in> set (zip lower_letters upper_letters)
            \<or> (d, c) \<in> set (zip lower_letters upper_letters))"

definition differ_only_in_case :: "string \<Rightarrow> string \<Rightarrow> bool" where
  "differ_only_in_case a b = (list_all ascii_char a \<and> list_all2 case_variants a b)"

definition ascii_runtime :: "upper \<Rightarrow> bool" where
  "ascii_runtime toUpperCase =
     (\<forall>t. list_all ascii_char t \<longrightarrow> toUpperCase t = map upper_char t)"

text \<open>
  A processor whose signature check accepts only the raw bytes of a request: handed a
  parsed object or array instead, \<^verbatim>\<open>constructEvent\<close> throws.
\<close>

fun parsed_json :: "jsval \<Rightarrow> bool" where
  "parsed_json (JObj kvs) = True"
| "parsed_json (JArr xs) = True"
| "parsed_json v = False"

definition verifies_raw_bytes_only :: "'s processor \<Rightarrow> bool" where
  "verifies_raw_bytes_only P =
     (\<forall>payload sig secret. parsed_json payload
        \<longrightarrow> (\<exists>e. webhooks_constructEvent P payload sig secret = Inl e))"

text \<open>
  The processor accepting a sequence of cancellations, one after the other: the cancelled
  subscriptions it returns and its state after the last one.
\<close>

fun cancel_all :: "'s processor \<Rightarrow> string list \<Rightarrow> 's \<Rightarrow> (subscription list \<times> 's) option" where
  "cancel_all P [] s = Some ([], s)"
| "cancel_all P (i # ids) s =
     (case subscriptions_cancel P i s of
        (Inl e, s') \<Rightarrow> None
      | (Inr c, s') \<Rightarrow>
          (case cancel_all P ids s' of
             None \<Rightarrow> None
           | Some (cs, s'') \<Rightarrow> Some (c # cs, s'')))"

text \<open>
  What the handler relies on for a stable customer: the customer the processor lists first
  for an email. A processor is coherent for an email when listing does not change that
  customer, a customer just created for the email is the one listed first, and creating
  an ephemeral key or a payment intent does not change it.
\<close>

definition first_listed :: "'s processor \<Rightarrow> jsval \<Rightarrow> 's \<Rightarrow> string option" where
  "first_listed P email s =
     (case fst (customers_list P email 1 s) of
        Inr (c # cs) \<Rightarrow> Some (c_id c)
      | _ \<Rightarrow> None)"

definition lookup_coherent :: "'s processor \<Rightarrow> jsval \<Rightarrow> bool" where
  "lookup_coherent P email =
     ((\<forall>s r s'. customers_list P email 1 s = (r, s')
          \<longrightarrow> first_listed P email s' = first_listed P email s)
    \<and> (\<forall>s m c s'. customers_create P email m s = (Inr c, s')
          \<longrightarrow> first_listed P email s' = Some (c_id c))
    \<and> (\<forall>s cu v k s'. ephemeralKeys_create P cu v s = (Inr k, s')
          \<longrightarrow> first_listed P email s' = first_listed P email s)
    \<and> (\<forall>s ps p s'. paymentIntents_create P ps s = (Inr p, s')
          \<longrightarrow> first_listed P email s' = first_listed P email s))"

definition issues_client_secrets :: "'s processor \<Rightarrow> bool" where
  "issues_client_secrets P =
     (\<forall>ps s p s'. paymentIntents_create P ps s = (Inr p, s')
        \<longrightarrow> (\<exists>t. pi_client_secret p = JStr t \<and> t \<noteq> []))"

section \<open>Concrete requests and processor states\<close>

definition pi_body :: body where
  "pi_body = [''customerEmail'' \<mapsto> JStr ''ann@example.com'', ''amount'' \<mapsto> JNum 1000,
              ''currency'' \<mapsto> JStr ''usd'']"

definition id_body :: body where
  "id_body = pi_body(''customerId'' \<mapsto> JStr ''user_42'')"

definition free_body :: body where
  "free_body = [''priceId'' \<mapsto> JStr ''price_1'', ''customerEmail'' \<mapsto> JStr ''ann@example.com'',
                ''customerId'' \<mapsto> JStr ''user_42'', ''promoCode'' \<mapsto> JStr ''free100'']"

definition save10_body :: body where
  "save10_body = [''priceId'' \<mapsto> JStr ''price_1'', ''customerEmail'' \<mapsto> JStr ''ann@example.com'',
                  ''customerId'' \<mapsto> JStr ''user_42'', ''promoCode'' \<mapsto> JStr ''save10'']"


text \<open>
  A delivery as the processor sends it: JSON content type, the bytes of an event, and the
  signature of exactly those bytes under the endpoint's secret.
\<close>

definition genuine_delivery :: http_request where
  "genuine_delivery = \<lparr>hr_is_json = True, hr_bytes = succeeded_bytes,
                        hr_stripe_signature = JStr (t_sign ''whsec_1'' succeeded_bytes)\<rparr>"

definition promo_state :: test_state where
  "promo_state = empty_state\<lparr>t_promos :=
     [\<lparr>pc_id = ''promo_1'', pc_code = ''SAVE10'', pc_active = True,
       pc_coupon = \<lparr>percent_off = JNum 10, amount_off = JNull, duration = JStr ''once'',
                    duration_in_months = JNull\<rparr>\<rparr>,
      \<lparr>pc_id = ''promo_2'', pc_code = ''FREE100'', pc_active = True,
       pc_coupon = \<lparr>percent_off = JNum 100, amount_off = JNull, duration = JStr ''forever'',
                    duration_in_months = JNull\<rparr>\<rparr>,
      \<lparr>pc_id = ''promo_3'', pc_code = ''OLD5'', pc_active = False,
       pc_coupon = \<lparr>percent_off = JNum 5, amount_off = JNull, duration = JStr ''once'',
                    duration_in_months = JNull\<rparr>\<rparr>]\<rparr>"

definition mk_sub :: "string \<Rightarrow> string \<Rightarrow> string \<Rightarrow> subscription" where
  "mk_sub i cust st = \<lparr>sub_id = i, sub_customer = cust, sub_status = st, latest_invoice = None\<rparr>"

definition three_subs :: "string \<Rightarrow> subscription list" where
  "three_subs st =
     [mk_sub ''sub_1'' ''cus_9'' st, mk_sub ''sub_2'' ''cus_9'' st, mk_sub ''sub_3'' ''cus_9'' st,
      mk_sub ''sub_4'' ''cus_9'' ''canceled'', mk_sub ''sub_5'' ''cus_7'' ''active'']"

definition owner_state :: "string \<Rightarrow> test_state" where
  "owner_state st = empty_state\<lparr>t_subs := three_subs st\<rparr>"

definition five_subs :: "string \<Rightarrow> subscription list" where
  "five_subs st =
     [mk_sub ''sub_1'' ''cus_9'' st, mk_sub ''sub_2'' ''cus_9'' st,
      mk_sub ''sub_3'' ''cus_9'' ''active'', mk_sub ''sub_4'' ''cus_9'' ''active'',
      mk_sub ''sub_5'' ''cus_9'' ''active'']"

definition outage_state :: "string \<Rightarrow> test_state" where
  "outage_state st = empty_state\<lparr>t_subs := five_subs st, t_unreachable := [''sub_3'']\<rparr>"

definition sharp_state :: test_state where
  "sharp_state = empty_state\<lparr>t_promos :=
     [\<lparr>pc_id = ''promo_4'', pc_code = ''SS'', pc_active = True,
       pc_coupon = \<lparr>percent_off = JNum 20, amount_off = JNull, duration = JStr ''once'',
                    duration_in_months = JNull\<rparr>\<rparr>]\<rparr>"

section \<open>Facts about the model\<close>

lemmas t_defs = test_processor_def t_customers_list_def t_customers_create_def
  t_ephemeralKeys_create_def t_paymentIntents_create_def t_promotionCodes_list_def
  t_subscriptions_create_def t_subscriptions_list_def t_subscriptions_cancel_def
  t_constructEvent_def t_sign_def test_config_def empty_state_def digit_chars_def
  t_events_def succeeded_bytes_def succeeded_event_def succeeded_json_def quoted_def
  test_express_def

lemmas h_defs = new_request_def res_status_def res_json_def res_send_def console_log_def
  console_error_def returnE_def throwE_def bindE_def liftE_def invoke_def
  stripe_customers_list_def stripe_customers_create_def stripe_ephemeralKeys_create_def
  stripe_paymentIntents_create_def stripe_promotionCodes_list_def
  stripe_subscriptions_create_def stripe_subscriptions_list_def stripe_subscriptions_cancel_def
  field_def Let_def

lemma digits_small: "n < 10 \<Longrightarrow> digits n = [digit_chars ! n]"
  by (simp add: digits.simps)

lemma lower_letters_distinct: "distinct (map fst (zip lower_letters upper_letters))"
  by (simp add: lower_letters_def upper_letters_def)

lemma upper_not_lower: "d \<in> set upper_letters \<Longrightarrow> d \<notin> set lower_letters"
  by (auto simp: lower_letters_def upper_letters_def)

lemma upper_char_lower:
  "(c, d) \<in> set (zip lower_letters upper_letters) \<Longrightarrow> upper_char c = d"
  using map_of_is_SomeI [OF lower_letters_distinct] by (simp add: upper_char_def)

lemma upper_char_upper:
  assumes "d \<in> set upper_letters" shows "upper_char d = d"
proof -
  have "d \<notin> fst ` set (zip lower_letters upper_letters)"
    using upper_not_lower [OF assms] by (auto dest: set_zip_leftD)
  then have "map_of (zip lower_letters upper_letters) d = None"
    by (simp add: map_of_eq_None_iff)
  then show ?thesis by (simp add: upper_char_def)
qed

lemma upper_char_pair:
  assumes "(c, d) \<in> set (zip lower_letters upper_letters)"
  shows "upper_char c = d" and "upper_char d = d"
  using assms upper_char_lower upper_char_upper set_zip_rightD by fastforce+

lemma upper_char_variants: "case_variants c d \<Longrightarrow> upper_char c = upper_char d"
  unfolding case_variants_def
  by (elim disjE) (simp_all add: upper_char_pair)

lemma map_upper_variants: "list_all2 case_variants a b \<Longrightarrow> map upper_char a = map upper_char b"
  by (induction a b rule: list_all2_induct) (simp_all add: upper_char_variants)

lemma letters_ascii: "c \<in> set lower_letters \<union> set upper_letters \<Longrightarrow> ascii_char c"
  by (auto simp: lower_letters_def upper_letters_def ascii_char_def)

lemma case_variants_ascii: "case_variants c d \<Longrightarrow> ascii_char c \<Longrightarrow> ascii_char d"
  unfolding case_variants_def
  by (auto dest: set_zip_leftD set_zip_rightD intro: letters_ascii)

lemma variants_ascii:
  "list_all2 case_variants a b \<Longrightarrow> list_all ascii_char a \<Longrightarrow> list_all ascii_char b"
  by (induction a b rule: list_all2_induct) (auto dest: case_variants_ascii)

lemma ascii_variants_same_uppercase:
  assumes "ascii_runtime toUpperCase" and "differ_only_in_case a b"
  shows "same_uppercase toUpperCase a b"
proof -
  have a: "list_all ascii_char a" and v: "list_all2 case_variants a b"
    using assms(2) by (simp_all add: differ_only_in_case_def)
  have b: "list_all ascii_char b" using variants_ascii [OF v a] .
  have "toUpperCase a = map upper_char a" "toUpperCase b = map upper_char b"
    using assms(1) a b by (simp_all add: ascii_runtime_def)
  moreover have "(a = []) = (b = [])" using v by (cases a; cases b) simp_all
  ultimately show ?thesis
    using map_upper_variants [OF v] by (simp add: same_uppercase_def)
qed

lemma test_toUpperCase_ascii: "ascii_runtime test_toUpperCase"
  by (auto simp: ascii_runtime_def test_toUpperCase_def small_sharp_s_def capital_sharp_s_def
      ascii_char_def)

lemmas upper_defs = test_toUpperCase_def upper_char_def lower_letters_def upper_letters_def
  small_sharp_s_def capital_sharp_s_def

lemma validate_promo_falsy:
  "\<not> truthy (field b ''promoCode'') \<Longrightarrow>
   validate_promo up P b s =
     \<lparr>pst = s, trace = [], statusCode = 400,
      sent = [(400, Json (JObj [(''valid'', JBool False), (''error'', JStr ''Promo code is required'')]))],
      console = []\<rparr>"
  by (simp add: validate_promo_def validate_promo_try_def new_request_def res_status_def
      res_json_def Let_def)

lemmas s_defs = mk_sub_def three_subs_def owner_state_def five_subs_def outage_state_def

lemma cancel_subscription_falsy:
  "\<not> truthy (field b ''customerId'') \<Longrightarrow>
   cancel_subscription P b s =
     \<lparr>pst = s, trace = [], statusCode = 400,
      sent = [(400, Json (JObj [(''error'', JStr ''Customer ID is required'')]))],
      console = []\<rparr>"
  by (simp add: cancel_subscription_def cancel_subscription_try_def new_request_def res_status_def
      res_json_def Let_def)

lemma create_payment_intent_no_id:
  assumes "\<not> truthy (field b ''customerId'')"
  shows "\<exists>rest. trace (create_payment_intent P cfg b s)
           = CustomersCreate (field b ''customerEmail'') None # rest
         \<and> (\<forall>e l. CustomersList e l \<notin> set rest)"
  using assms
  by (auto simp: create_payment_intent_def create_payment_intent_try_def h_defs
      split: prod.splits sum.splits)


lemma cancel_all_length: "cancel_all P ids s = Some (cs, s1) \<Longrightarrow> length cs = length ids"
  by (induction ids arbitrary: s cs)
     (auto split: prod.splits sum.splits option.splits)

lemma cancel_loop_all:
  "cancel_all P (map sub_id xs) (pst h) = Some (cs, s1) \<Longrightarrow>
   cancel_loop P (xs @ rest) acc h
     = cancel_loop P rest (acc @ map sub_id cs)
         (h\<lparr>pst := s1, trace := trace h @ map (SubscriptionsCancel \<circ> sub_id) xs\<rparr>)"
proof (induction xs arbitrary: acc h cs)
  case Nil
  then show ?case by (cases h) auto
next
  case (Cons x xs)
  from Cons.prems obtain c s' cs' where
    c: "subscriptions_cancel P (sub_id x) (pst h) = (Inr c, s')"
    and r: "cancel_all P (map sub_id xs) s' = Some (cs', s1)" and cs: "cs = c # cs'"
    by (auto split: prod.splits sum.splits option.splits)
  let ?h = "h\<lparr>pst := s', trace := trace h @ [SubscriptionsCancel (sub_id x)]\<rparr>"
  have "cancel_loop P ((x # xs) @ rest) acc h = cancel_loop P (xs @ rest) (acc @ [sub_id c]) ?h"
    using c by (simp add: stripe_subscriptions_cancel_def invoke_def)
  also have "\<dots> = cancel_loop P rest ((acc @ [sub_id c]) @ map sub_id cs')
                     (?h\<lparr>pst := s1, trace := trace ?h @ map (SubscriptionsCancel \<circ> sub_id) xs\<rparr>)"
    using r by (intro Cons.IH) simp
  finally show ?case by (simp add: cs comp_def del: cancel_loop.simps)
qed

lemma coh_list:
  "lookup_coherent P e \<Longrightarrow> customers_list P e (Suc 0) s = (r, s')
   \<Longrightarrow> first_listed P e s' = first_listed P e s"
  unfolding lookup_coherent_def by (metis One_nat_def)

lemma coh_create:
  "lookup_coherent P e \<Longrightarrow> customers_create P e m s = (Inr c, s')
   \<Longrightarrow> first_listed P e s' = Some (c_id c)"
  unfolding lookup_coherent_def by metis

lemma coh_key:
  "lookup_coherent P e \<Longrightarrow> ephemeralKeys_create P cu v s = (Inr k, s')
   \<Longrightarrow> first_listed P e s' = first_listed P e s"
  unfolding lookup_coherent_def by metis

lemma coh_intent:
  "lookup_coherent P e \<Longrightarrow> paymentIntents_create P ps s = (Inr p, s')
   \<Longrightarrow> first_listed P e s' = first_listed P e s"
  unfolding lookup_coherent_def by metis

lemma first_listed_hd:
  "customers_list P e (Suc 0) s = (Inr (c # cs), s') \<Longrightarrow> first_listed P e s = Some (c_id c)"
  by (simp add: first_listed_def)

lemmas cpi_defs = create_payment_intent_def create_payment_intent_try_def response_field_def
  new_request_def res_status_def res_json_def console_error_def returnE_def bindE_def
  invoke_def stripe_customers_list_def stripe_customers_create_def
  stripe_ephemeralKeys_create_def stripe_paymentIntents_create_def Let_def

lemma create_payment_intent_shape:
  assumes ok: "map fst (sent (create_payment_intent P cfg b s)) = [200]"
  shows "\<exists>c sb k sc ps p.
           (truthy (field b ''customerId'')
              \<and> (\<exists>cs sa. customers_list P (field b ''customerEmail'') (Suc 0) s = (Inr cs, sa)
                    \<and> ((\<exists>rest. cs = c # rest) \<and> sb = sa
                       \<or> cs = [] \<and> customers_create P (field b ''customerEmail'')
                                        (Some (field b ''customerId'')) sa = (Inr c, sb)))
            \<or> \<not> truthy (field b ''customerId'')
              \<and> customers_create P (field b ''customerEmail'') None s = (Inr c, sb))
         \<and> ephemeralKeys_create P (c_id c) ''2023-10-16'' sb = (Inr k, sc)
         \<and> paymentIntents_create P ps sc = (Inr p, pst (create_payment_intent P cfg b s))
         \<and> response_field (create_payment_intent P cfg b s) ''customer'' = JStr (c_id c)
         \<and> response_field (create_payment_intent P cfg b s) ''paymentIntent'' = pi_client_secret p"
proof -
  let ?e = "field b ''customerEmail''"
  let ?i = "field b ''customerId''"
  let ?ps = "\<lambda>c. \<lparr>pi_amount = field b ''amount'',
                pi_currency = (if truthy (field b ''currency'') then field b ''currency''
                               else JStr ''usd''),
                pi_customer = c_id c,
                pi_price_id = field b ''priceId'',
                pi_eventer_user_id = field b ''customerId'',
                pi_automatic_payment_methods = True\<rparr>"
  let ?h = "create_payment_intent P cfg b s"
  have tail: ?thesis
    if res: "truthy ?i
              \<and> (\<exists>cs sa. customers_list P ?e (Suc 0) s = (Inr cs, sa)
                    \<and> ((\<exists>rest. cs = cu # rest) \<and> sb = sa
                       \<or> cs = [] \<and> customers_create P ?e (Some ?i) sa = (Inr cu, sb)))
            \<or> \<not> truthy ?i \<and> customers_create P ?e None s = (Inr cu, sb)"
    for cu sb
  proof -
    obtain rk sc where k: "ephemeralKeys_create P (c_id cu) ''2023-10-16'' sb = (rk, sc)"
      by fastforce
    obtain rp sd where p: "paymentIntents_create P (?ps cu) sc = (rp, sd)"
      by fastforce
    show ?thesis
    proof (cases rk)
      case (Inl err)
      then have "map fst (sent ?h) = [500]"
        using res k by (auto simp: cpi_defs)
      with ok show ?thesis by simp
    next
      case rk: (Inr key)
      show ?thesis
      proof (cases rp)
        case (Inl err)
        then have "map fst (sent ?h) = [500]"
          using res k rk p by (auto simp: cpi_defs)
        with ok show ?thesis by simp
      next
        case rp: (Inr pin)
        have "pst ?h = sd \<and> response_field ?h ''customer'' = JStr (c_id cu)
            \<and> response_field ?h ''paymentIntent'' = pi_client_secret pin"
          using res k rk p rp by (auto simp: cpi_defs)
        then show ?thesis
          using res k rk p rp by blast
      qed
    qed
  qed
  show ?thesis
  proof (cases "truthy ?i")
    case False
    obtain rc sb where c: "customers_create P ?e None s = (rc, sb)"
      by fastforce
    show ?thesis
    proof (cases rc)
      case (Inl err)
      then have "map fst (sent ?h) = [500]"
        using False c by (simp add: cpi_defs)
      with ok show ?thesis by simp
    next
      case (Inr cu)
      show ?thesis
        using False c Inr by (intro tail [of cu sb]) simp
    qed
  next
    case t: True
    obtain r sa where l: "customers_list P ?e (Suc 0) s = (r, sa)"
      by (cases "customers_list P ?e (Suc 0) s")
    show ?thesis
    proof (cases r)
      case (Inl err)
      then have "map fst (sent ?h) = [500]"
        using t l by (simp add: cpi_defs)
      with ok show ?thesis by simp
    next
      case r: (Inr cs)
      show ?thesis
      proof (cases cs)
        case Nil
        obtain rc sb where c: "customers_create P ?e (Some ?i) sa = (rc, sb)"
          by fastforce
        show ?thesis
        proof (cases rc)
          case (Inl err)
          then have "map fst (sent ?h) = [500]"
            using t l r Nil c by (simp add: cpi_defs)
          with ok show ?thesis by simp
        next
          case (Inr cu)
          show ?thesis
            using t l r Nil c Inr by (intro tail [of cu sb]) simp
        qed
      next
        case (Cons cu rest)
        show ?thesis
          using t l r Cons by (intro tail [of cu sa]) simp
      qed
    qed
  qed
qed

lemma create_payment_intent_secret:
  assumes sec: "issues_client_secrets P"
    and ok: "map fst (sent (create_payment_intent P cfg b s)) = [200]"
  shows "\<exists>t. response_field (create_payment_intent P cfg b s) ''paymentIntent'' = JStr t
           \<and> t \<noteq> []"
proof -
  from create_payment_intent_shape [OF ok] obtain ps sc p where
    "paymentIntents_create P ps sc = (Inr p, pst (create_payment_intent P cfg b s))"
    "response_field (create_payment_intent P cfg b s) ''paymentIntent'' = pi_client_secret p"
    by blast
  then show ?thesis
    using sec unfolding issues_client_secrets_def by metis
qed

lemma create_payment_intent_resolved:
  assumes coh: "lookup_coherent P (field b ''customerEmail'')"
    and ok: "map fst (sent (create_payment_intent P cfg b s)) = [200]"
  shows "\<exists>cid. response_field (create_payment_intent P cfg b s) ''customer'' = JStr cid
           \<and> first_listed P (field b ''customerEmail'') (pst (create_payment_intent P cfg b s))
               = Some cid
           \<and> (truthy (field b ''customerId'')
                \<longrightarrow> (\<forall>c'. first_listed P (field b ''customerEmail'') s = Some c' \<longrightarrow> cid = c'))"
proof -
  let ?e = "field b ''customerEmail''"
  let ?i = "field b ''customerId''"
  let ?h = "create_payment_intent P cfg b s"
  from create_payment_intent_shape [OF ok] obtain c sb k sc ps p where
    r: "truthy ?i
          \<and> (\<exists>cs sa. customers_list P ?e (Suc 0) s = (Inr cs, sa)
                \<and> ((\<exists>rest. cs = c # rest) \<and> sb = sa
                   \<or> cs = [] \<and> customers_create P ?e (Some ?i) sa = (Inr c, sb)))
        \<or> \<not> truthy ?i \<and> customers_create P ?e None s = (Inr c, sb)"
    and k: "ephemeralKeys_create P (c_id c) ''2023-10-16'' sb = (Inr k, sc)"
    and p: "paymentIntents_create P ps sc = (Inr p, pst ?h)"
    and rc: "response_field ?h ''customer'' = JStr (c_id c)"
    by blast
  have sb: "first_listed P ?e sb = Some (c_id c)"
    and old: "truthy ?i \<longrightarrow> (\<forall>c'. first_listed P ?e s = Some c' \<longrightarrow> c_id c = c')"
    using r
  proof -
    show "first_listed P ?e sb = Some (c_id c)"
      using r coh_list [OF coh] coh_create [OF coh] first_listed_hd
      by (metis (no_types, lifting))
    show "truthy ?i \<longrightarrow> (\<forall>c'. first_listed P ?e s = Some c' \<longrightarrow> c_id c = c')"
    proof (intro impI allI)
      fix c' assume t: "truthy ?i" and f: "first_listed P ?e s = Some c'"
      from r t obtain cs sa where l: "customers_list P ?e (Suc 0) s = (Inr cs, sa)"
        and d: "(\<exists>rest. cs = c # rest) \<and> sb = sa
                \<or> cs = [] \<and> customers_create P ?e (Some ?i) sa = (Inr c, sb)"
        by blast
      from d show "c_id c = c'"
      proof
        assume "(\<exists>rest. cs = c # rest) \<and> sb = sa"
        then have "first_listed P ?e s = Some (c_id c)" using first_listed_hd l by fastforce
        with f show ?thesis by simp
      next
        assume "cs = [] \<and> customers_create P ?e (Some ?i) sa = (Inr c, sb)"
        then have "first_listed P ?e s = None" using l by (simp add: first_listed_def)
        with f show ?thesis by simp
      qed
    qed
  qed
  have fin: "first_listed P ?e (pst ?h) = Some (c_id c)"
    using coh_intent [OF coh p] coh_key [OF coh k] sb by simp
  show ?thesis
    using rc fin old by blast
qed

lemma test_processor_coherent: "lookup_coherent test_processor e"
  by (auto simp: lookup_coherent_def first_listed_def t_defs Let_def)

lemma test_processor_secrets: "issues_client_secrets test_processor"
  by (simp add: issues_client_secrets_def t_defs)

lemmas eval_cpi = create_payment_intent_def create_payment_intent_try_def response_field_def
  pi_body_def h_defs t_defs digits_small

text \<open>
  The webhook handler behind its parsers: it is never handed the raw bytes, and a JSON
  request whose bytes parse to an object or array reaches it as that parsed value.
\<close>

lemma webhook_route_body:
  "webhook_route E P cfg rq s = error_page 400 s
   \<or> (\<exists>bd. webhook_route E P cfg rq s
              = webhook P cfg \<lparr>stripe_signature = hr_stripe_signature rq, wh_body = bd\<rparr> s
           \<and> (bd = unparsed_body E \<or> parsed_json bd))"
  by (auto simp: webhook_route_def express_json_def express_raw_def
      split: option.splits jsval.splits)

lemma webhook_route_parsed:
  assumes "hr_is_json rq" and "hr_bytes rq \<noteq> []"
    and "JSON_parse E (hr_bytes rq) = Some v" and "parsed_json v"
  shows "webhook_route E P cfg rq s
         = webhook P cfg \<lparr>stripe_signature = hr_stripe_signature rq, wh_body = v\<rparr> s"
  using assms
  by (cases v) (simp_all add: webhook_route_def express_json_def express_raw_def)

lemma webhook_route_never_acknowledges:
  assumes "verifies_raw_bytes_only P"
    and "hr_is_json rq" and "hr_bytes rq \<noteq> []"
    and "JSON_parse E (hr_bytes rq) = Some v" and "parsed_json v"
  shows "map fst (sent (webhook_route E P cfg rq s)) = [400]
       \<and> ack \<notin> set (sent (webhook_route E P cfg rq s))"
proof -
  obtain e where e: "webhooks_constructEvent P v (hr_stripe_signature rq)
                       (STRIPE_WEBHOOK_SECRET cfg) = Inl e"
    using assms(1,5) unfolding verifies_raw_bytes_only_def by blast
  show ?thesis
    unfolding webhook_route_parsed [OF assms(2-5)]
    using e by (simp add: webhook_def h_defs ack_def)
qed

lemma test_processor_raw_only: "verifies_raw_bytes_only test_processor"
  by (auto simp: verifies_raw_bytes_only_def t_defs elim: parsed_json.elims)

text \<open>
  The promo branch of \<^verbatim>\<open>/create-subscription\<close>: the only promotion-code lookup it makes
  is for the uppercased code, active codes only, limit 1, and no subscription is created
  (nor success answered) without that lookup.
\<close>

lemmas cs_defs = create_subscription_def create_subscription_try_def
  new_request_def res_status_def res_json_def console_error_def returnE_def bindE_def liftE_def
  invoke_def stripe_customers_list_def stripe_customers_create_def
  stripe_ephemeralKeys_create_def stripe_promotionCodes_list_def
  stripe_subscriptions_create_def latest_invoice_payment_intent_client_secret_def Let_def

lemma create_subscription_promo_query:
  assumes pc: "field b ''promoCode'' = JStr a" and ne: "a \<noteq> []"
  shows "(\<forall>c act lim. PromotionCodesList c act lim \<in> set (trace (create_subscription up P b s))
            \<longrightarrow> c = up a \<and> act \<and> lim = 1)
       \<and> ((\<exists>ps. SubscriptionsCreate ps \<in> set (trace (create_subscription up P b s)))
            \<or> map fst (sent (create_subscription up P b s)) = [200]
          \<longrightarrow> PromotionCodesList (up a) True 1 \<in> set (trace (create_subscription up P b s)))"
proof -
  let ?e = "field b ''customerEmail''"
  let ?i = "field b ''customerId''"
  let ?h = "create_subscription up P b s"
  let ?L = "CustomersList ?e (Suc 0)"
  let ?C = "CustomersCreate ?e (Some ?i)"
  let ?Q = "PromotionCodesList (up a) True (Suc 0)"
  let ?o = "\<lambda>cu pr. \<lparr>sp_customer = c_id cu,
                 sp_price = field b ''priceId'',
                 sp_payment_behavior = ''default_incomplete'',
                 sp_save_default_payment_method = ''on_subscription'',
                 sp_expand = [''latest_invoice.payment_intent''],
                 sp_eventer_user_id = ?i,
                 sp_promotion_code = pr\<rparr>"
  obtain r sa where l: "customers_list P ?e (Suc 0) s = (r, sa)"
    by (cases "customers_list P ?e (Suc 0) s")
  have tail: ?thesis
    if cs: "customers_list P ?e (Suc 0) s = (Inr cs, sa)"
      and res: "(\<exists>rest. cs = cu # rest) \<and> sb = sa
            \<or> cs = [] \<and> customers_create P ?e (Some ?i) sa = (Inr cu, sb)"
    for cs cu sb
  proof -
    let ?pre = "if cs = [] then [?L, ?C] else [?L]"
    let ?K = "EphemeralKeysCreate (c_id cu) ''2023-10-16''"
    obtain rk sc where k: "ephemeralKeys_create P (c_id cu) ''2023-10-16'' sb = (rk, sc)"
      by fastforce
    show ?thesis
    proof (cases rk)
      case (Inl err)
      then have "trace ?h = ?pre @ [?K] \<and> map fst (sent ?h) = [500]"
        using pc ne cs res k by (auto simp: cs_defs)
      then show ?thesis by auto
    next
      case rk: (Inr key)
      obtain rq sq where q: "promotionCodes_list P (up a) True (Suc 0) sc = (rq, sq)"
        by fastforce
      show ?thesis
      proof (cases rq)
        case (Inl err)
        then have "trace ?h = ?pre @ [?K, ?Q] \<and> map fst (sent ?h) = [500]"
          using pc ne cs res k rk q by (auto simp: cs_defs)
        then show ?thesis by auto
      next
        case rq: (Inr pcs)
        let ?pr = "case pcs of [] \<Rightarrow> None | x # xs \<Rightarrow> Some (pc_id x)"
        obtain rs ss where c: "subscriptions_create P (?o cu ?pr) sq = (rs, ss)"
          by fastforce
        have "trace ?h = ?pre @ [?K, ?Q, SubscriptionsCreate (?o cu ?pr)]"
          using pc ne cs res k rk q rq c
          by (cases pcs; cases rs)
             (auto simp: cs_defs split: sum.splits option.splits)
        then show ?thesis by auto
      qed
    qed
  qed
  show ?thesis
  proof (cases r)
    case (Inl err)
    then have "trace ?h = [?L] \<and> map fst (sent ?h) = [500]"
      using l by (simp add: cs_defs)
    then show ?thesis by auto
  next
    case r: (Inr cs)
    show ?thesis
    proof (cases cs)
      case Nil
      obtain rc sb where c: "customers_create P ?e (Some ?i) sa = (rc, sb)"
        by fastforce
      show ?thesis
      proof (cases rc)
        case (Inl err)
        then have "trace ?h = [?L, ?C] \<and> map fst (sent ?h) = [500]"
          using l r Nil c by (simp add: cs_defs)
        then show ?thesis by auto
      next
        case (Inr cu)
        show ?thesis
          using l r Nil c Inr by (intro tail [of cs cu sb]) simp_all
      qed
    next
      case (Cons cu rest)
      show ?thesis
        using l r Cons by (intro tail [of cs cu sa]) simp_all
    qed
  qed
qed

lemma create_subscription_promo_reached:
  assumes pc: "field b ''promoCode'' = JStr a" and ne: "a \<noteq> []"
    and cs: "customers_list P (field b ''customerEmail'') 1 s = (Inr cs, sa)"
    and res: "(\<exists>rest. cs = cu # rest) \<and> sb = sa
            \<or> cs = [] \<and> customers_create P (field b ''customerEmail'')
                             (Some (field b ''customerId'')) sa = (Inr cu, sb)"
    and k: "ephemeralKeys_create P (c_id cu) ''2023-10-16'' sb = (Inr key, sc)"
  shows "PromotionCodesList (up a) True 1 \<in> set (trace (create_subscription up P b s))
       \<and> (\<forall>pcs sq. promotionCodes_list P (up a) True 1 sc = (Inr pcs, sq)
            \<longrightarrow> SubscriptionsCreate
                  \<lparr>sp_customer = c_id cu,
                   sp_price = field b ''priceId'',
                   sp_payment_behavior = ''default_incomplete'',
                   sp_save_default_payment_method = ''on_subscription'',
                   sp_expand = [''latest_invoice.payment_intent''],
                   sp_eventer_user_id = field b ''customerId'',
                   sp_promotion_code = (case pcs of [] \<Rightarrow> None | x # xs \<Rightarrow> Some (pc_id x))\<rparr>
                \<in> set (trace (create_subscription up P b s)))"
proof -
  let ?e = "field b ''customerEmail''"
  let ?i = "field b ''customerId''"
  let ?h = "create_subscription up P b s"
  let ?Q = "PromotionCodesList (up a) True (Suc 0)"
  let ?pre = "if cs = [] then [CustomersList ?e (Suc 0), CustomersCreate ?e (Some ?i)]
              else [CustomersList ?e (Suc 0)]"
  let ?K = "EphemeralKeysCreate (c_id cu) ''2023-10-16''"
  let ?o = "\<lambda>pr. \<lparr>sp_customer = c_id cu,
                 sp_price = field b ''priceId'',
                 sp_payment_behavior = ''default_incomplete'',
                 sp_save_default_payment_method = ''on_subscription'',
                 sp_expand = [''latest_invoice.payment_intent''],
                 sp_eventer_user_id = ?i,
                 sp_promotion_code = pr\<rparr>"
  have cs': "customers_list P ?e (Suc 0) s = (Inr cs, sa)" using cs by simp
  obtain rq sq where q: "promotionCodes_list P (up a) True (Suc 0) sc = (rq, sq)"
    by fastforce
  show ?thesis
  proof (cases rq)
    case (Inl err)
    then have "trace ?h = ?pre @ [?K, ?Q]"
      using pc ne cs' res k q by (auto simp: cs_defs)
    then show ?thesis using q Inl by auto
  next
    case rq: (Inr pcs)
    let ?pr = "case pcs of [] \<Rightarrow> None | x # xs \<Rightarrow> Some (pc_id x)"
    obtain rs ss where c: "subscriptions_create P (?o ?pr) sq = (rs, ss)"
      by fastforce
    have "trace ?h = ?pre @ [?K, ?Q, SubscriptionsCreate (?o ?pr)]"
      using pc ne cs' res k q rq c
      by (cases pcs; cases rs)
         (auto simp: cs_defs split: sum.splits option.splits)
    then show ?thesis using q rq by auto
  qed
qed

section \<open>The claims\<close>

text \<open>
  C1. A subscription created with a 100%-off promotion code comes back with a latest
  invoice that has no payment intent. The claim asks for a success response with a null
  payment-intent field; the handler reads \<^verbatim>\<open>.client_secret\<close> of \<^verbatim>\<open>null\<close>, the TypeError
  is caught, and the response is HTTP 500, the subscription having been created at the
  processor.
\<close>

theorem create_subscription_free_promo_fails:
  "sent (create_subscription test_toUpperCase test_processor free_body promo_state)
     = [(500, Json (JObj [(''error'',
          JStr ''Cannot read properties of null (reading 'client_secret')'')]))]
   \<and> map (\<lambda>x. (sub_id x, sub_status x))
        (t_subs (pst (create_subscription test_toUpperCase test_processor free_body promo_state)))
     = [(''sub_2'', ''active'')]"
  by (simp add: create_subscription_def create_subscription_try_def free_body_def promo_state_def
      latest_invoice_payment_intent_client_secret_def h_defs t_defs digits_small upper_defs)

text \<open>
  C2, as amended. Every successful \<^verbatim>\<open>/create-payment-intent\<close> response, with or without
  \<^verbatim>\<open>customerId\<close>, carries a non-empty client secret when the processor issues non-empty
  client secrets. And of two consecutive successful requests with the same email, the
  second of which supplies \<^verbatim>\<open>customerId\<close>, against a processor that is coherent for the
  email, the second returns the customer id the first returned (whether or not the first
  supplied \<^verbatim>\<open>customerId\<close>, and whatever the other fields of the two bodies).
\<close>

theorem create_payment_intent_customer_stable:
  "(issues_client_secrets P
      \<and> map fst (sent (create_payment_intent P cfg b s)) = [200]
    \<longrightarrow> (\<exists>t. response_field (create_payment_intent P cfg b s) ''paymentIntent'' = JStr t
              \<and> t \<noteq> []))
   \<and> (lookup_coherent P (field b ''customerEmail'')
      \<and> field b' ''customerEmail'' = field b ''customerEmail''
      \<and> truthy (field b' ''customerId'')
      \<and> map fst (sent (create_payment_intent P cfg b s)) = [200]
      \<and> map fst (sent (create_payment_intent P cfg b' (pst (create_payment_intent P cfg b s))))
          = [200]
    \<longrightarrow> response_field (create_payment_intent P cfg b' (pst (create_payment_intent P cfg b s)))
            ''customer''
          = response_field (create_payment_intent P cfg b s) ''customer'')"
proof (intro conjI impI)
  assume "issues_client_secrets P \<and> map fst (sent (create_payment_intent P cfg b s)) = [200]"
  then show "\<exists>t. response_field (create_payment_intent P cfg b s) ''paymentIntent'' = JStr t
               \<and> t \<noteq> []"
    by (intro create_payment_intent_secret) simp_all
next
  let ?e = "field b ''customerEmail''"
  let ?h1 = "create_payment_intent P cfg b s"
  let ?h2 = "create_payment_intent P cfg b' (pst ?h1)"
  assume a: "lookup_coherent P ?e \<and> field b' ''customerEmail'' = ?e
      \<and> truthy (field b' ''customerId'')
      \<and> map fst (sent ?h1) = [200] \<and> map fst (sent ?h2) = [200]"
  then have coh: "lookup_coherent P ?e" and em: "field b' ''customerEmail'' = ?e"
    and id2: "truthy (field b' ''customerId'')"
    and ok1: "map fst (sent ?h1) = [200]" and ok2: "map fst (sent ?h2) = [200]"
    by simp_all
  from create_payment_intent_resolved [OF coh ok1] obtain c1 where
    c1: "response_field ?h1 ''customer'' = JStr c1" "first_listed P ?e (pst ?h1) = Some c1"
    by blast
  have coh2: "lookup_coherent P (field b' ''customerEmail'')" using coh em by simp
  from create_payment_intent_resolved [OF coh2 ok2] id2 obtain c2 where
    c2: "response_field ?h2 ''customer'' = JStr c2"
        "\<forall>c'. first_listed P (field b' ''customerEmail'') (pst ?h1) = Some c' \<longrightarrow> c2 = c'"
    by blast
  have "c2 = c1" using c1(2) c2(2) em by simp
  then show "response_field ?h2 ''customer'' = response_field ?h1 ''customer''"
    using c1(1) c2(1) by simp
qed

theorem create_payment_intent_customer_stable_witness:
  "(\<exists>t. response_field (create_payment_intent test_processor test_config pi_body empty_state)
           ''paymentIntent'' = JStr t \<and> t \<noteq> [])
   \<and> response_field (create_payment_intent test_processor test_config pi_body empty_state)
        ''customer'' = JStr ''cus_0''
   \<and> response_field (create_payment_intent test_processor test_config id_body
        (pst (create_payment_intent test_processor test_config pi_body empty_state))) ''customer''
     = JStr ''cus_0''"
proof -
  have e: "field id_body ''customerEmail'' = field pi_body ''customerEmail''"
    by (simp add: id_body_def pi_body_def field_def)
  have a: "truthy (field id_body ''customerId'')"
    by (simp add: id_body_def field_def)
  have b: "map fst (sent (create_payment_intent test_processor test_config pi_body empty_state))
           = [200]"
    by (simp add: eval_cpi)
  have c: "map fst (sent (create_payment_intent test_processor test_config id_body
             (pst (create_payment_intent test_processor test_config pi_body empty_state))))
           = [200]"
    by (simp add: eval_cpi id_body_def)
  have d: "response_field (create_payment_intent test_processor test_config pi_body empty_state)
             ''customer'' = JStr ''cus_0''"
    by (simp add: eval_cpi)
  show ?thesis
    using create_payment_intent_customer_stable
      [of test_processor test_config pi_body empty_state id_body]
      test_processor_coherent [of "field pi_body ''customerEmail''"]
      test_processor_secrets e a b c d
    by metis
qed

text \<open>
  The claim as stated fails when \<^verbatim>\<open>customerId\<close> is not supplied: two successful requests
  with the same email, amount and currency return two different customer ids.
\<close>

theorem create_payment_intent_customer_not_stable:
  "map fst (sent (create_payment_intent test_processor test_config pi_body empty_state)) = [200]
   \<and> map fst (sent (create_payment_intent test_processor test_config pi_body
        (pst (create_payment_intent test_processor test_config pi_body empty_state)))) = [200]
   \<and> response_field (create_payment_intent test_processor test_config pi_body empty_state)
        ''customer''
     \<noteq> response_field (create_payment_intent test_processor test_config pi_body
        (pst (create_payment_intent test_processor test_config pi_body empty_state))) ''customer''"
  by (simp add: eval_cpi)



text \<open>
  C4. The claim: a webhook request that passes signature verification is acknowledged
  exactly once with \<^verbatim>\<open>{received: true}\<close>. The handler alone does so when handed the raw
  bytes of a delivery whose signature is valid. But the route never hands it the raw
  bytes: \<^verbatim>\<open>express.json()\<close>, registered for every route, parses the JSON body before the
  route's \<^verbatim>\<open>express.raw\<close>, which then leaves the request alone; \<^verbatim>\<open>constructEvent\<close> is
  given the parsed object and throws, and the delivery is answered with HTTP 400, never
  acknowledged.
\<close>

theorem webhook_route_rejects_genuine_delivery:
  "webhooks_constructEvent test_processor (JStr (hr_bytes genuine_delivery))
     (hr_stripe_signature genuine_delivery) (STRIPE_WEBHOOK_SECRET test_config)
   = Inr succeeded_event
   \<and> sent (webhook test_processor test_config
        \<lparr>stripe_signature = hr_stripe_signature genuine_delivery,
         wh_body = JStr (hr_bytes genuine_delivery)\<rparr> empty_state) = [ack]
   \<and> sent (webhook_route test_express test_processor test_config genuine_delivery empty_state)
     = [(400, Text ''Webhook Error: Webhook payload must be provided as a string or a Buffer'')]
   \<and> ack \<notin> set (sent (webhook_route test_express test_processor test_config genuine_delivery
                        empty_state))"
  by (simp add: webhook_route_def express_json_def express_raw_def webhook_def dispatch_def
      genuine_delivery_def h_defs t_defs ack_def)

text \<open>
  C5, as amended. \<^verbatim>\<open>/validate-promo\<close>: a request whose \<^verbatim>\<open>promoCode\<close> is missing or falsy
  (the handler's test \<^verbatim>\<open>!promoCode\<close>) is answered with HTTP 400; a request whose
  \<^verbatim>\<open>promoCode\<close> is a non-empty string for which the processor lists no active promotion
  code under its uppercased value is answered with HTTP 200 and \<^verbatim>\<open>{valid: false}\<close>. The
  two responses differ.
\<close>

theorem validate_promo_missing_or_unmatched:
  assumes "\<not> truthy (field b0 ''promoCode'')"
    and "field b1 ''promoCode'' = JStr code" and "code \<noteq> []"
    and "promotionCodes_list P (toUpperCase code) True 1 s1 = (Inr [], s1')"
  shows "sent (validate_promo toUpperCase P b0 s0)
           = [(400, Json (JObj [(''valid'', JBool False),
                                (''error'', JStr ''Promo code is required'')]))]
       \<and> sent (validate_promo toUpperCase P b1 s1) = [(200, Json (JObj [(''valid'', JBool False)]))]
       \<and> sent (validate_promo toUpperCase P b0 s0) \<noteq> sent (validate_promo toUpperCase P b1 s1)"
proof -
  have m: "sent (validate_promo toUpperCase P b0 s0)
           = [(400, Json (JObj [(''valid'', JBool False),
                                (''error'', JStr ''Promo code is required'')]))]"
    using assms(1) by (simp add: validate_promo_falsy)
  have u: "sent (validate_promo toUpperCase P b1 s1) = [(200, Json (JObj [(''valid'', JBool False)]))]"
    using assms(2,3,4)
    by (simp add: validate_promo_def validate_promo_try_def Let_def bindE_def liftE_def
        stripe_promotionCodes_list_def invoke_def new_request_def res_json_def)
  show ?thesis using m u by simp
qed

theorem validate_promo_missing_or_unmatched_witness:
  "sent (validate_promo test_toUpperCase test_processor Map.empty promo_state)
     = [(400, Json (JObj [(''valid'', JBool False), (''error'', JStr ''Promo code is required'')]))]
   \<and> sent (validate_promo test_toUpperCase test_processor [''promoCode'' \<mapsto> JStr ''old5''] promo_state)
     = [(200, Json (JObj [(''valid'', JBool False)]))]"
proof -
  have a: "\<not> truthy (field Map.empty ''promoCode'')" by (simp add: field_def)
  have b: "field [''promoCode'' \<mapsto> JStr ''old5''] ''promoCode'' = JStr ''old5''"
    by (simp add: field_def)
  have c: "''old5'' \<noteq> []" by simp
  have d: "promotionCodes_list test_processor (test_toUpperCase ''old5'') True 1 promo_state
           = (Inr [], promo_state)"
    by (simp add: t_defs promo_state_def upper_defs)
  show ?thesis
    using validate_promo_missing_or_unmatched
      [where toUpperCase = test_toUpperCase and code = "''old5''" and ?s0.0 = promo_state,
       OF a b c d]
    by simp
qed

text \<open>
  The claim as stated fails for a \<^verbatim>\<open>promoCode\<close> that is present but not a non-empty
  string: the number 123 has no \<^verbatim>\<open>toUpperCase\<close>, the TypeError is caught and the answer
  is HTTP 500, with no lookup made; the empty string is answered like a missing code,
  with HTTP 400.
\<close>

theorem validate_promo_present_not_string:
  "sent (validate_promo test_toUpperCase test_processor [''promoCode'' \<mapsto> JNum 123] promo_state)
     = [(500, Json (JObj [(''valid'', JBool False),
                          (''error'', JStr ''promoCode.toUpperCase is not a function'')]))]
   \<and> trace (validate_promo test_toUpperCase test_processor [''promoCode'' \<mapsto> JNum 123]
        promo_state) = []
   \<and> sent (validate_promo test_toUpperCase test_processor [''promoCode'' \<mapsto> JStr ''''] promo_state)
     = [(400, Json (JObj [(''valid'', JBool False),
                          (''error'', JStr ''Promo code is required'')]))]"
  by (simp add: validate_promo_def validate_promo_try_def h_defs)

text \<open>
  C6. \<^verbatim>\<open>/cancel-subscription\<close>: a missing \<^verbatim>\<open>customerId\<close> gives HTTP 400; a customer for
  whom the processor lists no active subscription gives HTTP 404; a customer for whom it
  lists \<open>N\<close> active subscriptions, each cancellation accepted, gives a success response
  whose \<^verbatim>\<open>canceledSubscriptions\<close> has length \<open>N\<close>, after one cancel call per listed
  subscription, in order.
\<close>

theorem cancel_subscription_outcomes:
  assumes "\<not> truthy (field b0 ''customerId'')"
    and "truthy (field b1 ''customerId'')"
    and "subscriptions_list P (field b1 ''customerId'') ''active'' 10 s1 = (Inr [], s1')"
    and "truthy (field b2 ''customerId'')"
    and "subscriptions_list P (field b2 ''customerId'') ''active'' 10 s2 = (Inr subs, s2')"
    and "subs \<noteq> []"
    and "cancel_all P (map sub_id subs) s2' = Some (cs, s2'')"
  shows "sent (cancel_subscription P b0 s0)
           = [(400, Json (JObj [(''error'', JStr ''Customer ID is required'')]))]
       \<and> sent (cancel_subscription P b1 s1)
           = [(404, Json (JObj [(''error'', JStr ''No active subscription found'')]))]
       \<and> sent (cancel_subscription P b2 s2)
           = [(200, Json (JObj [(''success'', JBool True),
                                (''canceledSubscriptions'', JArr (map (JStr \<circ> sub_id) cs))]))]
       \<and> length cs = length subs
       \<and> trace (cancel_subscription P b2 s2)
           = SubscriptionsList (field b2 ''customerId'') ''active'' 10
             # map (SubscriptionsCancel \<circ> sub_id) subs
       \<and> pst (cancel_subscription P b2 s2) = s2''"
proof -
  have m: "sent (cancel_subscription P b0 s0)
           = [(400, Json (JObj [(''error'', JStr ''Customer ID is required'')]))]"
    using assms(1) by (simp add: cancel_subscription_falsy)
  have z: "sent (cancel_subscription P b1 s1)
           = [(404, Json (JObj [(''error'', JStr ''No active subscription found'')]))]"
    using assms(2,3)
    by (simp add: cancel_subscription_def cancel_subscription_try_def Let_def bindE_def
        stripe_subscriptions_list_def invoke_def new_request_def res_json_def res_status_def)
  let ?h = "(new_request s2)\<lparr>pst := s2',
              trace := [SubscriptionsList (field b2 ''customerId'') ''active'' 10]\<rparr>"
  have l: "cancel_loop P (subs @ []) [] ?h
           = cancel_loop P [] ([] @ map sub_id cs)
               (?h\<lparr>pst := s2'', trace := trace ?h @ map (SubscriptionsCancel \<circ> sub_id) subs\<rparr>)"
    using assms(7) by (intro cancel_loop_all) simp
  obtain x xs where x: "subs = x # xs" using assms(6) by (cases subs) auto
  have n: "cancel_subscription P b2 s2
           = res_json (JObj [(''success'', JBool True),
                             (''canceledSubscriptions'', JArr (map JStr (map sub_id cs)))])
               (?h\<lparr>pst := s2'', trace := trace ?h @ map (SubscriptionsCancel \<circ> sub_id) subs\<rparr>)"
    using assms(4,5) l unfolding x
    by (simp add: cancel_subscription_def cancel_subscription_try_def Let_def bindE_def
        stripe_subscriptions_list_def invoke_def new_request_def)
  show ?thesis
    using m z cancel_all_length [OF assms(7)]
    by (simp add: n res_json_def new_request_def)
qed

theorem cancel_subscription_outcomes_witness:
  "sent (cancel_subscription test_processor Map.empty (owner_state ''active''))
     = [(400, Json (JObj [(''error'', JStr ''Customer ID is required'')]))]
   \<and> sent (cancel_subscription test_processor [''customerId'' \<mapsto> JStr ''cus_8''] (owner_state ''active''))
     = [(404, Json (JObj [(''error'', JStr ''No active subscription found'')]))]
   \<and> sent (cancel_subscription test_processor [''customerId'' \<mapsto> JStr ''cus_9''] (owner_state ''active''))
     = [(200, Json (JObj [(''success'', JBool True),
          (''canceledSubscriptions'', JArr [JStr ''sub_1'', JStr ''sub_2'', JStr ''sub_3''])]))]
   \<and> pst (cancel_subscription test_processor [''customerId'' \<mapsto> JStr ''cus_9''] (owner_state ''active''))
     = owner_state ''canceled''"
proof -
  have a: "\<not> truthy (field Map.empty ''customerId'')" by (simp add: field_def)
  have b: "truthy (field [''customerId'' \<mapsto> JStr ''cus_8''] ''customerId'')"
    by (simp add: field_def)
  have c: "subscriptions_list test_processor (field [''customerId'' \<mapsto> JStr ''cus_8''] ''customerId'')
             ''active'' 10 (owner_state ''active'') = (Inr [], owner_state ''active'')"
    by (simp add: field_def t_defs s_defs)
  have d: "truthy (field [''customerId'' \<mapsto> JStr ''cus_9''] ''customerId'')"
    by (simp add: field_def)
  have e: "subscriptions_list test_processor (field [''customerId'' \<mapsto> JStr ''cus_9''] ''customerId'')
             ''active'' 10 (owner_state ''active'')
           = (Inr (take 3 (three_subs ''active'')), owner_state ''active'')"
    by (simp add: field_def t_defs s_defs)
  have f: "take 3 (three_subs ''active'') \<noteq> []" by (simp add: s_defs)
  have g: "cancel_all test_processor (map sub_id (take 3 (three_subs ''active''))) (owner_state ''active'')
           = Some (take 3 (three_subs ''canceled''), owner_state ''canceled'')"
    by (simp add: t_defs s_defs)
  have h: "map (JStr \<circ> sub_id) (take 3 (three_subs ''canceled''))
           = [JStr ''sub_1'', JStr ''sub_2'', JStr ''sub_3'']"
    by (simp add: s_defs)
  show ?thesis
    using cancel_subscription_outcomes [OF a b c d e f g, of "owner_state ''active''"]
    unfolding h by blast
qed

text \<open>
  C7. When the processor rejects the cancellation of the \<open>k\<close>-th listed subscription
  (\<open>k = j + 1\<close>) after accepting the first \<open>k - 1\<close>, the response is HTTP 500 with the
  processor's message, the calls made are the listing and the cancellations of the first
  \<open>k\<close> subscriptions only, and the processor is left in the state after them: nothing
  is rolled back and nothing after the \<open>k\<close>-th is attempted.
\<close>

theorem cancel_subscription_partial_failure:
  assumes "truthy (field b ''customerId'')"
    and "subscriptions_list P (field b ''customerId'') ''active'' 10 s = (Inr subs, s')"
    and "j < length subs"
    and "cancel_all P (map sub_id (take j subs)) s' = Some (cs, s1)"
    and "subscriptions_cancel P (sub_id (subs ! j)) s1 = (Inl e, s2)"
  shows "sent (cancel_subscription P b s) = [(500, Json (JObj [(''error'', JStr (message e))]))]
       \<and> trace (cancel_subscription P b s)
           = SubscriptionsList (field b ''customerId'') ''active'' 10
             # map (SubscriptionsCancel \<circ> sub_id) (take (Suc j) subs)
       \<and> pst (cancel_subscription P b s) = s2"
proof -
  let ?h = "(new_request s)\<lparr>pst := s',
              trace := [SubscriptionsList (field b ''customerId'') ''active'' 10]\<rparr>"
  let ?rest = "subs ! j # drop (Suc j) subs"
  let ?h1 = "?h\<lparr>pst := s1, trace := trace ?h @ map (SubscriptionsCancel \<circ> sub_id) (take j subs)\<rparr>"
  have split: "subs = take j subs @ ?rest"
    using assms(3) by (simp add: id_take_nth_drop [symmetric])
  have "cancel_loop P (take j subs @ ?rest) [] ?h
        = cancel_loop P ?rest ([] @ map sub_id cs) ?h1"
    using assms(4) by (intro cancel_loop_all) simp
  also have "\<dots> = (Inl e, ?h1\<lparr>pst := s2,
                        trace := trace ?h1 @ [SubscriptionsCancel (sub_id (subs ! j))]\<rparr>)"
    using assms(5) by (simp add: stripe_subscriptions_cancel_def invoke_def)
  finally have l: "cancel_loop P subs [] ?h
        = (Inl e, ?h1\<lparr>pst := s2,
                        trace := trace ?h1 @ [SubscriptionsCancel (sub_id (subs ! j))]\<rparr>)"
    using split by simp
  obtain x xs where x: "subs = x # xs" using assms(3) by (cases subs) auto
  have t: "take (Suc j) subs = take j subs @ [subs ! j]"
    using assms(3) by (simp add: take_Suc_conv_app_nth)
  have n: "cancel_subscription P b s
           = res_json (JObj [(''error'', JStr (message e))])
               (res_status 500 (console_error
                  [JStr ''Error canceling subscription:'', JStr (message e)]
                  (?h1\<lparr>pst := s2,
                        trace := trace ?h1 @ [SubscriptionsCancel (sub_id (subs ! j))]\<rparr>)))"
    using assms(1,2) l unfolding x
    by (simp add: cancel_subscription_def cancel_subscription_try_def Let_def bindE_def
        stripe_subscriptions_list_def invoke_def new_request_def)
  show ?thesis
    by (simp add: n t res_json_def res_status_def console_error_def new_request_def)
qed

theorem cancel_subscription_partial_failure_witness:
  "sent (cancel_subscription test_processor [''customerId'' \<mapsto> JStr ''cus_9''] (outage_state ''active''))
     = [(500, Json (JObj [(''error'', JStr ''An error occurred with our connection to Stripe'')]))]
   \<and> trace (cancel_subscription test_processor [''customerId'' \<mapsto> JStr ''cus_9''] (outage_state ''active''))
     = [SubscriptionsList (JStr ''cus_9'') ''active'' 10, SubscriptionsCancel ''sub_1'',
        SubscriptionsCancel ''sub_2'', SubscriptionsCancel ''sub_3'']
   \<and> map sub_status (t_subs (pst (cancel_subscription test_processor
          [''customerId'' \<mapsto> JStr ''cus_9''] (outage_state ''active''))))
     = [''canceled'', ''canceled'', ''active'', ''active'', ''active'']"
proof -
  have a: "truthy (field [''customerId'' \<mapsto> JStr ''cus_9''] ''customerId'')"
    by (simp add: field_def)
  have b: "subscriptions_list test_processor (field [''customerId'' \<mapsto> JStr ''cus_9''] ''customerId'')
             ''active'' 10 (outage_state ''active'')
           = (Inr (five_subs ''active''), outage_state ''active'')"
    by (simp add: field_def t_defs s_defs)
  have c: "2 < length (five_subs ''active'')" by (simp add: s_defs)
  have d: "cancel_all test_processor (map sub_id (take 2 (five_subs ''active''))) (outage_state ''active'')
           = Some (take 2 (five_subs ''canceled''), outage_state ''canceled'')"
    by (simp add: t_defs s_defs)
  have e: "subscriptions_cancel test_processor (sub_id (five_subs ''active'' ! 2)) (outage_state ''canceled'')
           = (Inl (StripeError ''An error occurred with our connection to Stripe''),
              outage_state ''canceled'')"
    by (simp add: t_defs s_defs)
  have f: "field [''customerId'' \<mapsto> JStr ''cus_9''] ''customerId'' = JStr ''cus_9''"
    by (simp add: field_def)
  have g: "map (SubscriptionsCancel \<circ> sub_id) (take (Suc 2) (five_subs ''active''))
           = [SubscriptionsCancel ''sub_1'', SubscriptionsCancel ''sub_2'', SubscriptionsCancel ''sub_3'']"
    by (simp add: s_defs)
  have h: "map sub_status (t_subs (outage_state ''canceled''))
           = [''canceled'', ''canceled'', ''active'', ''active'', ''active'']"
    by (simp add: s_defs t_defs)
  show ?thesis
    using cancel_subscription_partial_failure [OF a b c d e] h
    unfolding f g by (simp del: truthy.simps)
qed

text \<open>
  C8, as amended. Two promo codes with the same uppercased form, as every two texts of
  ASCII characters that differ only in the case of their letters have, are treated alike
  by \<^verbatim>\<open>/validate-promo\<close> and by \<^verbatim>\<open>/create-subscription\<close> (same processor calls, same
  response, same promotion code id). \<^verbatim>\<open>/validate-promo\<close> makes exactly one lookup, for
  the uppercased code. In \<^verbatim>\<open>/create-subscription\<close> every promotion-code lookup is for the
  uppercased code, no subscription is created without it, and once the customer is
  resolved and the ephemeral key issued the lookup is made and the subscription is
  requested with the id of the first promotion code listed (none when none is listed).
\<close>

theorem promo_lookup_case_insensitive:
  assumes "same_uppercase up a a'" and "field b ''promoCode'' = JStr a"
  shows "validate_promo up P b s = validate_promo up P (b(''promoCode'' \<mapsto> JStr a')) s
       \<and> create_subscription up P b s = create_subscription up P (b(''promoCode'' \<mapsto> JStr a')) s
       \<and> (a \<noteq> [] \<longrightarrow>
            trace (validate_promo up P b s) = [PromotionCodesList (up a) True 1]
          \<and> (\<forall>c act lim. PromotionCodesList c act lim \<in> set (trace (create_subscription up P b s))
                \<longrightarrow> c = up a \<and> act \<and> lim = 1)
          \<and> ((\<exists>ps. SubscriptionsCreate ps \<in> set (trace (create_subscription up P b s)))
               \<or> map fst (sent (create_subscription up P b s)) = [200]
              \<longrightarrow> PromotionCodesList (up a) True 1 \<in> set (trace (create_subscription up P b s)))
          \<and> (\<forall>cs sa cu sb key sc.
                customers_list P (field b ''customerEmail'') 1 s = (Inr cs, sa)
                \<and> ((\<exists>rest. cs = cu # rest) \<and> sb = sa
                   \<or> cs = [] \<and> customers_create P (field b ''customerEmail'')
                                    (Some (field b ''customerId'')) sa = (Inr cu, sb))
                \<and> ephemeralKeys_create P (c_id cu) ''2023-10-16'' sb = (Inr key, sc)
              \<longrightarrow> PromotionCodesList (up a) True 1 \<in> set (trace (create_subscription up P b s))
                \<and> (\<forall>pcs sq. promotionCodes_list P (up a) True 1 sc = (Inr pcs, sq)
                     \<longrightarrow> SubscriptionsCreate
                           \<lparr>sp_customer = c_id cu,
                            sp_price = field b ''priceId'',
                            sp_payment_behavior = ''default_incomplete'',
                            sp_save_default_payment_method = ''on_subscription'',
                            sp_expand = [''latest_invoice.payment_intent''],
                            sp_eventer_user_id = field b ''customerId'',
                            sp_promotion_code
                              = (case pcs of [] \<Rightarrow> None | x # xs \<Rightarrow> Some (pc_id x))\<rparr>
                         \<in> set (trace (create_subscription up P b s)))))"
proof -
  have u: "up a = up a'" and n: "(a = []) = (a' = [])"
    using assms(1) by (simp_all add: same_uppercase_def)
  have "b ''promoCode'' = Some (JStr a)"
    using assms(2) by (cases "b ''promoCode''") (simp_all add: field_def)
  then have bb: "b = b(''promoCode'' \<mapsto> JStr a)"
    by (simp add: map_upd_triv)
  have v0: "validate_promo up P (b(''promoCode'' \<mapsto> JStr a)) s
           = validate_promo up P (b(''promoCode'' \<mapsto> JStr a')) s"
    by (simp add: validate_promo_def validate_promo_try_def field_def Let_def u n)
  have c0: "create_subscription up P (b(''promoCode'' \<mapsto> JStr a)) s
           = create_subscription up P (b(''promoCode'' \<mapsto> JStr a')) s"
    by (simp add: create_subscription_def create_subscription_try_def field_def Let_def u n
        cong: if_cong)
  have v: "validate_promo up P b s = validate_promo up P (b(''promoCode'' \<mapsto> JStr a')) s"
    using v0 bb by simp
  have c: "create_subscription up P b s = create_subscription up P (b(''promoCode'' \<mapsto> JStr a')) s"
    using c0 bb by simp
  have t: "a \<noteq> [] \<longrightarrow> trace (validate_promo up P b s) = [PromotionCodesList (up a) True 1]"
    using assms(2)
    by (auto simp: validate_promo_def validate_promo_try_def new_request_def res_status_def
        res_json_def console_error_def bindE_def liftE_def invoke_def
        stripe_promotionCodes_list_def Let_def
        split: prod.splits sum.splits list.splits)
  show ?thesis
  proof (intro conjI impI allI)
    show "validate_promo up P b s = validate_promo up P (b(''promoCode'' \<mapsto> JStr a')) s"
      by (rule v)
    show "create_subscription up P b s = create_subscription up P (b(''promoCode'' \<mapsto> JStr a')) s"
      by (rule c)
  qed (use t assms(2) create_subscription_promo_query [where b = b and a = a and P = P and s = s and up = up]
           create_subscription_promo_reached [where b = b and a = a and P = P and s = s and up = up]
       in fast)+
qed

theorem promo_lookup_case_insensitive_witness:
  "differ_only_in_case ''save10'' ''SAVE10''
   \<and> same_uppercase test_toUpperCase ''save10'' ''SAVE10''
   \<and> response_field (validate_promo test_toUpperCase test_processor save10_body promo_state)
        ''promoCodeId'' = JStr ''promo_1''
   \<and> response_field (validate_promo test_toUpperCase test_processor
        (save10_body(''promoCode'' \<mapsto> JStr ''SAVE10'')) promo_state) ''promoCodeId''
       = JStr ''promo_1''
   \<and> trace (validate_promo test_toUpperCase test_processor save10_body promo_state)
       = [PromotionCodesList ''SAVE10'' True 1]
   \<and> PromotionCodesList ''SAVE10'' True 1
       \<in> set (trace (create_subscription test_toUpperCase test_processor save10_body promo_state))
   \<and> SubscriptionsCreate
        \<lparr>sp_customer = ''cus_0'', sp_price = JStr ''price_1'',
         sp_payment_behavior = ''default_incomplete'',
         sp_save_default_payment_method = ''on_subscription'',
         sp_expand = [''latest_invoice.payment_intent''],
         sp_eventer_user_id = JStr ''user_42'',
         sp_promotion_code = Some ''promo_1''\<rparr>
       \<in> set (trace (create_subscription test_toUpperCase test_processor save10_body promo_state))"
proof -
  let ?cu = "\<lparr>c_id = ''cus_0'', c_email = JStr ''ann@example.com'',
              c_eventer_user_id = JStr ''user_42''\<rparr>"
  let ?s1 = "promo_state\<lparr>t_customers := [?cu], t_next := 1\<rparr>"
  let ?s2 = "promo_state\<lparr>t_customers := [?cu], t_next := 2\<rparr>"
  let ?p1 = "\<lparr>pc_id = ''promo_1'', pc_code = ''SAVE10'', pc_active = True,
       pc_coupon = \<lparr>percent_off = JNum 10, amount_off = JNull, duration = JStr ''once'',
                    duration_in_months = JNull\<rparr>\<rparr>"
  have a: "differ_only_in_case ''save10'' ''SAVE10''"
    by (simp add: differ_only_in_case_def case_variants_def ascii_char_def lower_letters_def
        upper_letters_def)
  have s: "same_uppercase test_toUpperCase ''save10'' ''SAVE10''"
    using ascii_variants_same_uppercase [OF test_toUpperCase_ascii a] .
  have f: "field save10_body ''promoCode'' = JStr ''save10''"
    by (simp add: save10_body_def field_def)
  have ne: "''save10'' \<noteq> []" by simp
  have u: "test_toUpperCase ''save10'' = ''SAVE10''"
    by (simp add: upper_defs)
  have e: "field save10_body ''customerEmail'' = JStr ''ann@example.com''"
    and i: "field save10_body ''customerId'' = JStr ''user_42''"
    and p: "field save10_body ''priceId'' = JStr ''price_1''"
    by (simp_all add: save10_body_def field_def)
  have l: "customers_list test_processor (field save10_body ''customerEmail'') 1 promo_state
           = (Inr [], promo_state)"
    by (simp add: e t_defs promo_state_def)
  have r: "(\<exists>rest. [] = ?cu # rest) \<and> ?s1 = promo_state
           \<or> [] = [] \<and> customers_create test_processor (field save10_body ''customerEmail'')
                (Some (field save10_body ''customerId'')) promo_state = (Inr ?cu, ?s1)"
    by (simp add: e i t_defs promo_state_def digits_small Let_def)
  have k: "ephemeralKeys_create test_processor (c_id ?cu) ''2023-10-16'' ?s1
           = (Inr \<lparr>ek_secret = JStr ''ek_1_secret''\<rparr>, ?s2)"
    by (simp add: t_defs promo_state_def digits_small Let_def)
  have q: "promotionCodes_list test_processor (test_toUpperCase ''save10'') True 1 ?s2
           = (Inr [?p1], ?s2)"
    by (simp add: u t_defs promo_state_def)
  note th = promo_lookup_case_insensitive [OF s f, of test_processor promo_state]
  have v: "validate_promo test_toUpperCase test_processor save10_body promo_state
           = validate_promo test_toUpperCase test_processor
               (save10_body(''promoCode'' \<mapsto> JStr ''SAVE10'')) promo_state"
    using th by fast
  have t: "trace (validate_promo test_toUpperCase test_processor save10_body promo_state)
           = [PromotionCodesList (test_toUpperCase ''save10'') True 1]"
    using th ne by fast
  have reached: "PromotionCodesList (test_toUpperCase ''save10'') True 1
       \<in> set (trace (create_subscription test_toUpperCase test_processor save10_body promo_state))
     \<and> (\<forall>pcs sq. promotionCodes_list test_processor (test_toUpperCase ''save10'') True 1 ?s2
                    = (Inr pcs, sq)
          \<longrightarrow> SubscriptionsCreate
                \<lparr>sp_customer = c_id ?cu,
                 sp_price = field save10_body ''priceId'',
                 sp_payment_behavior = ''default_incomplete'',
                 sp_save_default_payment_method = ''on_subscription'',
                 sp_expand = [''latest_invoice.payment_intent''],
                 sp_eventer_user_id = field save10_body ''customerId'',
                 sp_promotion_code = (case pcs of [] \<Rightarrow> None | x # xs \<Rightarrow> Some (pc_id x))\<rparr>
              \<in> set (trace (create_subscription test_toUpperCase test_processor save10_body
                             promo_state)))"
    using th ne l r k by fast
  have sc: "SubscriptionsCreate
        \<lparr>sp_customer = ''cus_0'', sp_price = JStr ''price_1'',
         sp_payment_behavior = ''default_incomplete'',
         sp_save_default_payment_method = ''on_subscription'',
         sp_expand = [''latest_invoice.payment_intent''],
         sp_eventer_user_id = JStr ''user_42'',
         sp_promotion_code = Some ''promo_1''\<rparr>
       \<in> set (trace (create_subscription test_toUpperCase test_processor save10_body promo_state))"
    using reached [THEN conjunct2, rule_format, OF q] by (simp add: i p)
  have c: "response_field (validate_promo test_toUpperCase test_processor save10_body promo_state)
        ''promoCodeId'' = JStr ''promo_1''"
    by (simp add: validate_promo_def validate_promo_try_def response_field_def promo_state_def
        save10_body_def h_defs t_defs upper_defs)
  have d: "response_field (validate_promo test_toUpperCase test_processor
        (save10_body(''promoCode'' \<mapsto> JStr ''SAVE10'')) promo_state) ''promoCodeId''
       = JStr ''promo_1''"
    using c unfolding v .
  show ?thesis
    using a s c d t reached [THEN conjunct1] sc unfolding u by (intro conjI)
qed

text \<open>
  The claim as stated fails for a pair that differs only in letter case but not in ASCII:
  the small sharp s is uppercased to \<^verbatim>\<open>SS\<close>, the capital sharp s stays as it is, so the
  two requests look up different codes and resolve differently.
\<close>

theorem promo_lookup_sharp_s:
  "trace (validate_promo test_toUpperCase test_processor
      [''promoCode'' \<mapsto> JStr small_sharp_s] sharp_state)
     = [PromotionCodesList ''SS'' True 1]
   \<and> trace (validate_promo test_toUpperCase test_processor
      [''promoCode'' \<mapsto> JStr capital_sharp_s] sharp_state)
     = [PromotionCodesList capital_sharp_s True 1]
   \<and> response_field (validate_promo test_toUpperCase test_processor
      [''promoCode'' \<mapsto> JStr small_sharp_s] sharp_state) ''promoCodeId'' = JStr ''promo_4''
   \<and> response_field (validate_promo test_toUpperCase test_processor
      [''promoCode'' \<mapsto> JStr capital_sharp_s] sharp_state) ''valid'' = JBool False"
  by (simp add: validate_promo_def validate_promo_try_def response_field_def sharp_state_def
      h_defs t_defs upper_defs)

text \<open>
  C9. Without a \<^verbatim>\<open>customerId\<close>, \<^verbatim>\<open>/create-payment-intent\<close> begins by creating a customer
  for the email, with no metadata, and never lists customers; a second request with the
  same body does the same, so each call creates one more customer for the email.
\<close>

theorem create_payment_intent_without_customerId:
  assumes "\<not> truthy (field b ''customerId'')"
  shows "(\<exists>rest. trace (create_payment_intent P cfg b s)
                  = CustomersCreate (field b ''customerEmail'') None # rest
                \<and> (\<forall>e l. CustomersList e l \<notin> set rest))
       \<and> (\<exists>rest. trace (create_payment_intent P cfg b (pst (create_payment_intent P cfg b s)))
                  = CustomersCreate (field b ''customerEmail'') None # rest
                \<and> (\<forall>e l. CustomersList e l \<notin> set rest))"
  by (intro conjI create_payment_intent_no_id [OF assms])

theorem create_payment_intent_without_customerId_witness:
  "\<not> truthy (field pi_body ''customerId'')
   \<and> hd (trace (create_payment_intent test_processor test_config pi_body empty_state))
       = CustomersCreate (JStr ''ann@example.com'') None
   \<and> hd (trace (create_payment_intent test_processor test_config pi_body
             (pst (create_payment_intent test_processor test_config pi_body empty_state))))
       = CustomersCreate (JStr ''ann@example.com'') None
   \<and> map c_id (t_customers (pst (create_payment_intent test_processor test_config pi_body
             (pst (create_payment_intent test_processor test_config pi_body empty_state)))))
       = [''cus_3'', ''cus_0'']"
proof -
  have a: "\<not> truthy (field pi_body ''customerId'')"
    by (simp add: pi_body_def field_def)
  have e: "field pi_body ''customerEmail'' = JStr ''ann@example.com''"
    by (simp add: pi_body_def field_def)
  have t: "hd (trace (create_payment_intent test_processor test_config pi_body empty_state))
             = CustomersCreate (JStr ''ann@example.com'') None
         \<and> hd (trace (create_payment_intent test_processor test_config pi_body
             (pst (create_payment_intent test_processor test_config pi_body empty_state))))
             = CustomersCreate (JStr ''ann@example.com'') None"
    using create_payment_intent_without_customerId [OF a, of test_processor test_config empty_state]
    unfolding e by fastforce
  have d: "map c_id (t_customers (pst (create_payment_intent test_processor test_config pi_body
             (pst (create_payment_intent test_processor test_config pi_body empty_state)))))
       = [''cus_3'', ''cus_0'']"
    by (simp add: create_payment_intent_def create_payment_intent_try_def pi_body_def
        h_defs t_defs digits_small)
  show ?thesis using a t d by blast
qed

text \<open>
  C10. A falsy \<^verbatim>\<open>promoCode\<close> (the empty string, \<^verbatim>\<open>null\<close>, \<^verbatim>\<open>false\<close>, \<^verbatim>\<open>0\<close>) is
  handled by \<^verbatim>\<open>/validate-promo\<close> exactly as an absent one, and a falsy \<^verbatim>\<open>customerId\<close>
  by \<^verbatim>\<open>/cancel-subscription\<close> exactly as an absent one: HTTP 400, no processor call,
  the processor's state untouched.
\<close>

theorem falsy_field_is_missing:
  assumes "\<not> truthy v"
  shows "validate_promo up P (b(''promoCode'' \<mapsto> v)) s = validate_promo up P (b(''promoCode'' := None)) s
       \<and> sent (validate_promo up P (b(''promoCode'' \<mapsto> v)) s)
           = [(400, Json (JObj [(''valid'', JBool False),
                                (''error'', JStr ''Promo code is required'')]))]
       \<and> trace (validate_promo up P (b(''promoCode'' \<mapsto> v)) s) = []
       \<and> pst (validate_promo up P (b(''promoCode'' \<mapsto> v)) s) = s
       \<and> cancel_subscription P (b(''customerId'' \<mapsto> v)) s
           = cancel_subscription P (b(''customerId'' := None)) s
       \<and> sent (cancel_subscription P (b(''customerId'' \<mapsto> v)) s)
           = [(400, Json (JObj [(''error'', JStr ''Customer ID is required'')]))]
       \<and> trace (cancel_subscription P (b(''customerId'' \<mapsto> v)) s) = []
       \<and> pst (cancel_subscription P (b(''customerId'' \<mapsto> v)) s) = s"
proof -
  have p: "\<not> truthy (field (b(''promoCode'' \<mapsto> v)) ''promoCode'')"
          "\<not> truthy (field (b(''promoCode'' := None)) ''promoCode'')"
          "\<not> truthy (field (b(''customerId'' \<mapsto> v)) ''customerId'')"
          "\<not> truthy (field (b(''customerId'' := None)) ''customerId'')"
    using assms by (simp_all add: field_def)
  show ?thesis
    by (simp add: validate_promo_falsy [OF p(1)] validate_promo_falsy [OF p(2)]
        cancel_subscription_falsy [OF p(3)] cancel_subscription_falsy [OF p(4)])
qed

theorem falsy_field_is_missing_witness:
  "sent (validate_promo test_toUpperCase test_processor (Map.empty(''promoCode'' \<mapsto> JStr '''')) promo_state)
     = [(400, Json (JObj [(''valid'', JBool False), (''error'', JStr ''Promo code is required'')]))]
   \<and> trace (validate_promo test_toUpperCase test_processor (Map.empty(''promoCode'' \<mapsto> JStr '''')) promo_state) = []
   \<and> sent (cancel_subscription test_processor (Map.empty(''customerId'' \<mapsto> JStr '''')) promo_state)
     = [(400, Json (JObj [(''error'', JStr ''Customer ID is required'')]))]
   \<and> trace (cancel_subscription test_processor (Map.empty(''customerId'' \<mapsto> JStr '''')) promo_state) = []"
proof -
  have f: "\<not> truthy (JStr '''')" by simp
  show ?thesis
    using falsy_field_is_missing [OF f, of test_toUpperCase test_processor Map.empty promo_state] by blast
qed

end
